theory Spec2Isabelle
  imports Main
begin

section \<open>Data model (chibicc.h, as used by codegen\_wasm.c and dump.c)\<close>

text \<open>
  The header \<^verbatim>\<open>chibicc.h\<close> is not among the sources; the structs below carry the fields
  that \<^verbatim>\<open>codegen_wasm.c\<close> and \<^verbatim>\<open>dump.c\<close> read or write.  A C pointer that may be
  null is an \<open>option\<close>; a linked list threaded through \<^verbatim>\<open>next\<close> is a HOL list; a C
  string is the list of the characters before its terminator.  C \<^verbatim>\<open>int\<close> and
  \<^verbatim>\<open>long\<close> values are mathematical integers (signed overflow is undefined in C, so the
  model speaks about the runs that stay in range).  The \<^verbatim>\<open>long double\<close> payload of
  numeric nodes and tokens is an abstract type \<open>'f\<close>; its printf formatting is a parameter.
\<close>

datatype TypeKind =
  TY_VOID | TY_BOOL | TY_CHAR | TY_SHORT | TY_INT | TY_LONG | TY_FLOAT | TY_DOUBLE
| TY_LDOUBLE | TY_ENUM | TY_PTR | TY_FUNC | TY_ARRAY | TY_VLA | TY_STRUCT | TY_UNION

datatype Type = Type
  (ty_kind: TypeKind)
  (ty_size: int)
  (ty_align: int)
  (ty_is_unsigned: bool)
  (ty_base: "Type option")
  (ty_array_len: int)
  (ty_return_ty: "Type option")

type_synonym addr = nat

datatype TokenKind = TK_IDENT | TK_PUNCT | TK_KEYWORD | TK_STR | TK_NUM | TK_PP_NUM | TK_EOF

text \<open>A token: \<open>loc\<close> holds the \<^verbatim>\<open>len\<close> bytes at \<^verbatim>\<open>loc\<close>.\<close>

record 'f Token =
  tk_kind :: TokenKind
  tk_val :: int
  tk_fval :: 'f
  tk_ty :: "Type option"
  loc :: string
  filename :: "string option"
  line_no :: int

datatype NodeKind =
  ND_NULL_EXPR | ND_ADD | ND_SUB | ND_MUL | ND_DIV | ND_NEG | ND_MOD | ND_BITAND | ND_BITOR
| ND_BITXOR | ND_SHL | ND_SHR | ND_EQ | ND_NE | ND_LT | ND_LE | ND_ASSIGN | ND_COND | ND_COMMA
| ND_MEMBER | ND_ADDR | ND_DEREF | ND_NOT | ND_BITNOT | ND_LOGAND | ND_LOGOR | ND_RETURN
| ND_IF | ND_FOR | ND_DO | ND_SWITCH | ND_CASE | ND_BLOCK | ND_GOTO | ND_GOTO_EXPR | ND_LABEL
| ND_LABEL_VAL | ND_FUNCALL | ND_EXPR_STMT | ND_STMT_EXPR | ND_VAR | ND_VLA_PTR | ND_NUM
| ND_CAST | ND_MEMZERO | ND_ASM | ND_CAS | ND_EXCH

text \<open>A struct member: its offset and the text of its name token (null when unnamed).\<close>

record Member =
  mem_offset :: int
  mem_name :: "string option"

text \<open>
  An AST node.  \<open>var\<close> is the pointer to the \<^verbatim>\<open>Obj\<close> the node refers to, an address
  into the object store below, because the layout pass writes the objects that nodes
  point to.  \<open>body\<close>, \<open>args\<close> and \<open>case_next\<close> are the lists threaded through
  \<^verbatim>\<open>next\<close> and \<^verbatim>\<open>case_next\<close>.
\<close>

datatype 'f Node = Node
  (kind: NodeKind)
  (ty: "Type option")
  (tok: "'f Token option")
  (lhs: "'f Node option")
  (rhs: "'f Node option")
  (cond: "'f Node option")
  (then_nd: "'f Node option")
  (els: "'f Node option")
  (init: "'f Node option")
  (inc: "'f Node option")
  (brk_label: "string option")
  (cont_label: "string option")
  (body: "'f Node list")
  (member_nd: "Member option")
  (args: "'f Node list")
  (label: "string option")
  (unique_label: "string option")
  (case_next: "'f Node list")
  (default_case: "'f Node option")
  (begin_val: int)
  (end_val: int)
  (asm_str: "string option")
  (cas_addr: "'f Node option")
  (cas_old: "'f Node option")
  (cas_new: "'f Node option")
  (var: "addr option")
  (val: int)
  (fval: 'f)

text \<open>
  A variable or function.  \<open>params\<close> and \<open>locals\<close> are the addresses of the objects on
  the two lists; the program itself is the list of the addresses of its top-level objects.
\<close>

record 'f Obj =
  obj_name :: "string option"
  obj_ty :: "Type option"
  is_local :: bool
  offset :: int
  is_function :: bool
  is_definition :: bool
  is_static :: bool
  is_tentative :: bool
  is_tls :: bool
  init_data :: "string option"
  params :: "addr list"
  obj_body :: "'f Node option"
  locals :: "addr list"
  stack_size :: int
  is_live :: bool

type_synonym 'f store = "addr \<Rightarrow> 'f Obj"

subsection \<open>Type utilities of codegen\_wasm.c\<close>

text \<open>\<^verbatim>\<open>static char *wasm_type(Type *ty)\<close>\<close>

definition wasm_type :: "Type option \<Rightarrow> string" where
  "wasm_type typ =
     (case typ of
        None \<Rightarrow> ''i32''
      | Some t \<Rightarrow>
          (case ty_kind t of
             TY_FLOAT \<Rightarrow> ''f32''
           | TY_DOUBLE \<Rightarrow> ''f64''
           | TY_LDOUBLE \<Rightarrow> ''f64''
           | TY_LONG \<Rightarrow> (if ty_size t = 8 then ''i64'' else ''i32'')
           | _ \<Rightarrow> ''i32''))"

definition is_wasm_i64 :: "Type option \<Rightarrow> bool" where
  "is_wasm_i64 typ = (case typ of None \<Rightarrow> False | Some t \<Rightarrow> ty_kind t = TY_LONG \<and> ty_size t = 8)"

definition is_wasm_f32 :: "Type option \<Rightarrow> bool" where
  "is_wasm_f32 typ = (case typ of None \<Rightarrow> False | Some t \<Rightarrow> ty_kind t = TY_FLOAT)"

definition is_wasm_f64 :: "Type option \<Rightarrow> bool" where
  "is_wasm_f64 typ =
     (case typ of None \<Rightarrow> False | Some t \<Rightarrow> ty_kind t = TY_DOUBLE \<or> ty_kind t = TY_LDOUBLE)"

definition is_wasm_float :: "Type option \<Rightarrow> bool" where
  "is_wasm_float typ = (is_wasm_f32 typ \<or> is_wasm_f64 typ)"

text \<open>\<^verbatim>\<open>static int wasm_size(Type *ty)\<close>\<close>

definition wasm_size :: "Type option \<Rightarrow> int" where
  "wasm_size typ =
     (case typ of
        None \<Rightarrow> 4
      | Some t \<Rightarrow>
          (if ty_kind t = TY_PTR \<or> ty_kind t = TY_FUNC then 4
           else if ty_kind t = TY_LONG then 4
           else ty_size t))"

subsection \<open>The output stream of the code generator\<close>

text \<open>
  Every write of the generator goes through \<^verbatim>\<open>println(fmt, ...)\<close> or
  \<^verbatim>\<open>fprintf(output_file, fmt, ...)\<close>.  The stream is modelled as the sequence of these
  calls, each with its format string and its arguments; \<open>println\<close> also records the
  indentation level it read.  The bytes are obtained by \<open>render\<close> further down.
\<close>

datatype 'f arg = S "string option" | I int | C char | F32 'f | F64 'f

datatype 'f item = Println int string "'f arg list" | Fprintf string "'f arg list"

record 'f cg =
  output_file :: "'f item list"
  current_fn :: "addr option"
  indent_level :: int
  wasm_label_count :: int

definition println :: "string \<Rightarrow> 'f arg list \<Rightarrow> 'f cg \<Rightarrow> 'f cg" where
  "println fmt as s = s\<lparr>output_file := output_file s @ [Println (indent_level s) fmt as]\<rparr>"

definition fprintf :: "string \<Rightarrow> 'f arg list \<Rightarrow> 'f cg \<Rightarrow> 'f cg" where
  "fprintf fmt as s = s\<lparr>output_file := output_file s @ [Fprintf fmt as]\<rparr>"

definition indent :: "'f cg \<Rightarrow> 'f cg" where
  "indent s = s\<lparr>indent_level := indent_level s + 1\<rparr>"

definition dedent :: "'f cg \<Rightarrow> 'f cg" where
  "dedent s = s\<lparr>indent_level := indent_level s - 1\<rparr>"

text \<open>\<^verbatim>\<open>static void wasm_load(Type *ty)\<close>\<close>

definition wasm_load :: "Type option \<Rightarrow> 'f cg \<Rightarrow> 'f cg" where
  "wasm_load typ s =
     (case typ of
        None \<Rightarrow> s
      | Some t \<Rightarrow>
          if ty_kind t = TY_ARRAY \<or> ty_kind t = TY_STRUCT \<or> ty_kind t = TY_UNION
             \<or> ty_kind t = TY_FUNC then s
          else if ty_kind t = TY_FLOAT then println ''(f32.load)'' [] s
          else if ty_kind t = TY_DOUBLE \<or> ty_kind t = TY_LDOUBLE then println ''(f64.load)'' [] s
          else
            (let sz = wasm_size typ in
             if sz = 1 then
               println (if ty_is_unsigned t then ''(i32.load8_u)'' else ''(i32.load8_s)'') [] s
             else if sz = 2 then
               println (if ty_is_unsigned t then ''(i32.load16_u)'' else ''(i32.load16_s)'') [] s
             else println ''(i32.load)'' [] s))"

text \<open>\<^verbatim>\<open>static void wasm_store(Type *ty)\<close>\<close>

definition wasm_store :: "Type option \<Rightarrow> 'f cg \<Rightarrow> 'f cg" where
  "wasm_store typ s =
     (case typ of
        None \<Rightarrow> s
      | Some t \<Rightarrow>
          if ty_kind t = TY_STRUCT \<or> ty_kind t = TY_UNION then
            println ''(drop)'' []
              (println ''(drop)'' []
                 (println '';; TODO: struct store (size=%d)'' [I (ty_size t)] s))
          else if ty_kind t = TY_FLOAT then println ''(f32.store)'' [] s
          else if ty_kind t = TY_DOUBLE \<or> ty_kind t = TY_LDOUBLE then println ''(f64.store)'' [] s
          else
            (let sz = wasm_size typ in
             if sz = 1 then println ''(i32.store8)'' [] s
             else if sz = 2 then println ''(i32.store16)'' [] s
             else println ''(i32.store)'' [] s))"

section \<open>The JSON dumper (dump.c)\<close>

text \<open>
  The dumper writes to one stream only; each function of the model returns the text that
  the C function writes, and a sequence of writes is a concatenation.
\<close>

subsection \<open>printf conversions for integers\<close>

fun show_nat :: "nat \<Rightarrow> string" where
  "show_nat n =
     (if n < 10 then [''0123456789'' ! n]
      else show_nat (n div 10) @ [''0123456789'' ! (n mod 10)])"

declare show_nat.simps [simp del]

text \<open>\<^verbatim>\<open>%d\<close>, \<^verbatim>\<open>%ld\<close>, \<^verbatim>\<open>%lld\<close>\<close>

definition show_int :: "int \<Rightarrow> string" where
  "show_int i = (if i < 0 then CHR ''-'' # show_nat (nat (- i)) else show_nat (nat i))"

fun show_hex :: "nat \<Rightarrow> string" where
  "show_hex n =
     (if n < 16 then [''0123456789abcdef'' ! n]
      else show_hex (n div 16) @ [''0123456789abcdef'' ! (n mod 16)])"

declare show_hex.simps [simp del]

text \<open>\<^verbatim>\<open>%02x\<close> and \<^verbatim>\<open>%04x\<close>: lowercase hexadecimal, zero-padded to the width.\<close>

definition show_hex_pad :: "nat \<Rightarrow> nat \<Rightarrow> string" where
  "show_hex_pad w n = replicate (w - length (show_hex n)) (CHR ''0'') @ show_hex n"

subsection \<open>JSON helper utilities\<close>

definition MAX_DEPTH :: int where
  "MAX_DEPTH = 20"

text \<open>One iteration of the loop of \<^verbatim>\<open>json_print_escaped\<close>: the switch on the byte.\<close>

definition json_escape_char :: "char \<Rightarrow> string" where
  "json_escape_char c =
     (if c = CHR 0x22 then [CHR 0x5C, CHR 0x22]
      else if c = CHR 0x5C then [CHR 0x5C, CHR 0x5C]
      else if c = CHR 0x0A then [CHR 0x5C, CHR ''n'']
      else if c = CHR 0x0D then [CHR 0x5C, CHR ''r'']
      else if c = CHR 0x09 then [CHR 0x5C, CHR ''t'']
      else if c = CHR 0x00 then CHR 0x5C # ''u0000''
      else if (of_char c :: nat) < 0x20 then CHR 0x5C # ''u'' @ show_hex_pad 4 (of_char c)
      else [c])"

text \<open>\<^verbatim>\<open>static void json_print_escaped(FILE *out, const char *s, int len)\<close>\<close>

definition json_print_escaped :: "string \<Rightarrow> string" where
  "json_print_escaped s = CHR 0x22 # concat (map json_escape_char s) @ [CHR 0x22]"

text \<open>\<^verbatim>\<open>static void json_print_str(FILE *out, const char *s)\<close>\<close>

definition json_print_str :: "string option \<Rightarrow> string" where
  "json_print_str s = (case s of None \<Rightarrow> ''null'' | Some str \<Rightarrow> json_print_escaped str)"

definition token_kind_name :: "TokenKind \<Rightarrow> string" where
  "token_kind_name k =
     (case k of
        TK_IDENT \<Rightarrow> ''TK_IDENT''
      | TK_PUNCT \<Rightarrow> ''TK_PUNCT''
      | TK_KEYWORD \<Rightarrow> ''TK_KEYWORD''
      | TK_STR \<Rightarrow> ''TK_STR''
      | TK_NUM \<Rightarrow> ''TK_NUM''
      | TK_PP_NUM \<Rightarrow> ''TK_PP_NUM''
      | TK_EOF \<Rightarrow> ''TK_EOF'')"

definition node_kind_name :: "NodeKind \<Rightarrow> string" where
  "node_kind_name k =
     (case k of
        ND_NULL_EXPR \<Rightarrow> ''ND_NULL_EXPR''
      | ND_ADD \<Rightarrow> ''ND_ADD''
      | ND_SUB \<Rightarrow> ''ND_SUB''
      | ND_MUL \<Rightarrow> ''ND_MUL''
      | ND_DIV \<Rightarrow> ''ND_DIV''
      | ND_NEG \<Rightarrow> ''ND_NEG''
      | ND_MOD \<Rightarrow> ''ND_MOD''
      | ND_BITAND \<Rightarrow> ''ND_BITAND''
      | ND_BITOR \<Rightarrow> ''ND_BITOR''
      | ND_BITXOR \<Rightarrow> ''ND_BITXOR''
      | ND_SHL \<Rightarrow> ''ND_SHL''
      | ND_SHR \<Rightarrow> ''ND_SHR''
      | ND_EQ \<Rightarrow> ''ND_EQ''
      | ND_NE \<Rightarrow> ''ND_NE''
      | ND_LT \<Rightarrow> ''ND_LT''
      | ND_LE \<Rightarrow> ''ND_LE''
      | ND_ASSIGN \<Rightarrow> ''ND_ASSIGN''
      | ND_COND \<Rightarrow> ''ND_COND''
      | ND_COMMA \<Rightarrow> ''ND_COMMA''
      | ND_MEMBER \<Rightarrow> ''ND_MEMBER''
      | ND_ADDR \<Rightarrow> ''ND_ADDR''
      | ND_DEREF \<Rightarrow> ''ND_DEREF''
      | ND_NOT \<Rightarrow> ''ND_NOT''
      | ND_BITNOT \<Rightarrow> ''ND_BITNOT''
      | ND_LOGAND \<Rightarrow> ''ND_LOGAND''
      | ND_LOGOR \<Rightarrow> ''ND_LOGOR''
      | ND_RETURN \<Rightarrow> ''ND_RETURN''
      | ND_IF \<Rightarrow> ''ND_IF''
      | ND_FOR \<Rightarrow> ''ND_FOR''
      | ND_DO \<Rightarrow> ''ND_DO''
      | ND_SWITCH \<Rightarrow> ''ND_SWITCH''
      | ND_CASE \<Rightarrow> ''ND_CASE''
      | ND_BLOCK \<Rightarrow> ''ND_BLOCK''
      | ND_GOTO \<Rightarrow> ''ND_GOTO''
      | ND_GOTO_EXPR \<Rightarrow> ''ND_GOTO_EXPR''
      | ND_LABEL \<Rightarrow> ''ND_LABEL''
      | ND_LABEL_VAL \<Rightarrow> ''ND_LABEL_VAL''
      | ND_FUNCALL \<Rightarrow> ''ND_FUNCALL''
      | ND_EXPR_STMT \<Rightarrow> ''ND_EXPR_STMT''
      | ND_STMT_EXPR \<Rightarrow> ''ND_STMT_EXPR''
      | ND_VAR \<Rightarrow> ''ND_VAR''
      | ND_VLA_PTR \<Rightarrow> ''ND_VLA_PTR''
      | ND_NUM \<Rightarrow> ''ND_NUM''
      | ND_CAST \<Rightarrow> ''ND_CAST''
      | ND_MEMZERO \<Rightarrow> ''ND_MEMZERO''
      | ND_ASM \<Rightarrow> ''ND_ASM''
      | ND_CAS \<Rightarrow> ''ND_CAS''
      | ND_EXCH \<Rightarrow> ''ND_EXCH'')"

text \<open>\<^verbatim>\<open>static char *type_to_str(Type *ty)\<close>\<close>

fun type_to_str :: "Type option \<Rightarrow> string" where
  "type_to_str None = ''(null)''"
| "type_to_str (Some (Type k sz al u b len r)) =
     (case k of
        TY_VOID \<Rightarrow> (if u then ''unsigned void'' else ''void'')
      | TY_BOOL \<Rightarrow> ''_Bool''
      | TY_CHAR \<Rightarrow> (if u then ''unsigned char'' else ''char'')
      | TY_SHORT \<Rightarrow> (if u then ''unsigned short'' else ''short'')
      | TY_INT \<Rightarrow> (if u then ''unsigned int'' else ''int'')
      | TY_LONG \<Rightarrow> (if u then ''unsigned long'' else ''long'')
      | TY_FLOAT \<Rightarrow> ''float''
      | TY_DOUBLE \<Rightarrow> ''double''
      | TY_LDOUBLE \<Rightarrow> ''long double''
      | TY_ENUM \<Rightarrow> ''enum''
      | TY_STRUCT \<Rightarrow> ''struct('' @ show_int sz @ '')''
      | TY_UNION \<Rightarrow> ''union('' @ show_int sz @ '')''
      | TY_PTR \<Rightarrow> type_to_str b @ '' *''
      | TY_ARRAY \<Rightarrow> type_to_str b @ ''['' @ show_int len @ '']''
      | TY_VLA \<Rightarrow> type_to_str b @ ''[*]''
      | TY_FUNC \<Rightarrow> type_to_str r @ '' (*)()'')"

subsection \<open>\<^verbatim>\<open>--dump-tokens\<close>\<close>

text \<open>
  The body of the loop of \<^verbatim>\<open>dump_tokens\<close> for one token that is not \<^verbatim>\<open>TK_EOF\<close>,
  after the separator: the JSON object of the token.  \<open>fmtLg\<close> is printf's \<^verbatim>\<open>%Lg\<close>.
\<close>

definition dump_token :: "('f \<Rightarrow> string) \<Rightarrow> 'f Token \<Rightarrow> string" where
  \<open>dump_token fmtLg t =
     ''  {"kind":'' @ json_print_str (Some (token_kind_name (tk_kind t)))
     @ '',"text":'' @ json_print_escaped (loc t)
     @ '',"line":'' @ show_int (line_no t)
     @ '',"file":'' @ json_print_str (filename t)
     @ (if tk_kind t = TK_NUM then
          (if (case tk_ty t of None \<Rightarrow> False
               | Some typ \<Rightarrow> ty_kind typ = TY_FLOAT \<or> ty_kind typ = TY_DOUBLE
                             \<or> ty_kind typ = TY_LDOUBLE)
           then '',"fval":'' @ fmtLg (tk_fval t)
           else '',"val":'' @ show_int (tk_val t))
        else [])
     @ ''}''\<close>

text \<open>The loop \<^verbatim>\<open>for (Token *t = tok; t; t = t->next)\<close> with its flag \<^verbatim>\<open>first\<close>.\<close>

fun dump_tokens_loop :: "('f \<Rightarrow> string) \<Rightarrow> bool \<Rightarrow> 'f Token list \<Rightarrow> string" where
  "dump_tokens_loop fmtLg first [] = []"
| "dump_tokens_loop fmtLg first (t # ts) =
     (if tk_kind t = TK_EOF then []
      else (if \<not> first then '',\<newline>'' else []) @ dump_token fmtLg t
           @ dump_tokens_loop fmtLg False ts)"

text \<open>\<^verbatim>\<open>void dump_tokens(Token *tok)\<close>\<close>

definition dump_tokens :: "('f \<Rightarrow> string) \<Rightarrow> 'f Token list \<Rightarrow> string" where
  "dump_tokens fmtLg tokens = ''[\<newline>'' @ dump_tokens_loop fmtLg True tokens @ ''\<newline>]\<newline>''"

subsection \<open>\<^verbatim>\<open>--dump-ast\<close>\<close>

lemma size_option_lhs [termination_simp]: "size_option size (lhs n) < size n"
  and size_option_rhs [termination_simp]: "size_option size (rhs n) < size n"
  and size_option_cond [termination_simp]: "size_option size (cond n) < size n"
  and size_option_then_nd [termination_simp]: "size_option size (then_nd n) < size n"
  and size_option_els [termination_simp]: "size_option size (els n) < size n"
  and size_option_init [termination_simp]: "size_option size (init n) < size n"
  and size_option_inc [termination_simp]: "size_option size (inc n) < size n"
  and size_option_cas_addr [termination_simp]: "size_option size (cas_addr n) < size n"
  and size_option_cas_old [termination_simp]: "size_option size (cas_old n) < size n"
  and size_option_cas_new [termination_simp]: "size_option size (cas_new n) < size n"
  and size_list_body [termination_simp]: "size_list size (body n) < size n"
  and size_list_args [termination_simp]: "size_list size (args n) < size n"
  by (cases n; simp)+

text \<open>
  \<^verbatim>\<open>dump_node\<close>, \<^verbatim>\<open>dump_node_list\<close> and \<^verbatim>\<open>dump_node_field\<close>.  The loop of
  \<^verbatim>\<open>dump_node_list\<close> is \<open>dump_node_list_loop\<close>, with its flag \<^verbatim>\<open>first\<close>.  The store
  \<open>\<sigma>\<close> resolves \<^verbatim>\<open>node->var\<close>.
\<close>

function dump_node :: "('f \<Rightarrow> string) \<Rightarrow> 'f store \<Rightarrow> 'f Node option \<Rightarrow> int \<Rightarrow> string"
  and dump_node_list_loop :: "('f \<Rightarrow> string) \<Rightarrow> 'f store \<Rightarrow> bool \<Rightarrow> 'f Node list \<Rightarrow> int \<Rightarrow> string"
  and dump_node_list :: "('f \<Rightarrow> string) \<Rightarrow> 'f store \<Rightarrow> string \<Rightarrow> 'f Node list \<Rightarrow> int \<Rightarrow> string"
  and dump_node_field :: "('f \<Rightarrow> string) \<Rightarrow> 'f store \<Rightarrow> string \<Rightarrow> 'f Node option \<Rightarrow> int \<Rightarrow> string"
where
  \<open>dump_node fmtLg \<sigma> None depth = ''null''\<close>
| \<open>dump_node fmtLg \<sigma> (Some node) depth =
     (if depth > MAX_DEPTH then ''{"kind":"...(truncated)"}''
      else
        ''{"kind":'' @ json_print_str (Some (node_kind_name (kind node)))
        @ (case ty node of None \<Rightarrow> []
           | Some typ \<Rightarrow> '',"type":'' @ json_print_str (Some (type_to_str (Some typ))))
        @ (case tok node of None \<Rightarrow> []
           | Some tk \<Rightarrow> '',"line":'' @ show_int (line_no tk))
        @ (case kind node of
             ND_NUM \<Rightarrow>
               (if (case ty node of None \<Rightarrow> False
                    | Some typ \<Rightarrow> ty_kind typ = TY_FLOAT \<or> ty_kind typ = TY_DOUBLE
                                  \<or> ty_kind typ = TY_LDOUBLE)
                then '',"fval":'' @ fmtLg (fval node)
                else '',"val":'' @ show_int (val node))
           | ND_VAR \<Rightarrow>
               (case var node of None \<Rightarrow> []
                | Some v \<Rightarrow> '',"name":'' @ json_print_str (obj_name (\<sigma> v)))
           | ND_FUNCALL \<Rightarrow>
               dump_node_field fmtLg \<sigma> ''func'' (lhs node) (depth + 1)
               @ dump_node_list fmtLg \<sigma> ''args'' (args node) (depth + 1)
           | ND_MEMBER \<Rightarrow>
               dump_node_field fmtLg \<sigma> ''lhs'' (lhs node) (depth + 1)
               @ (case member_nd node of None \<Rightarrow> []
                  | Some m \<Rightarrow>
                      (case mem_name m of None \<Rightarrow> []
                       | Some nm \<Rightarrow> '',"member":'' @ json_print_escaped nm))
           | ND_IF \<Rightarrow>
               dump_node_field fmtLg \<sigma> ''cond'' (cond node) (depth + 1)
               @ dump_node_field fmtLg \<sigma> ''then'' (then_nd node) (depth + 1)
               @ (if els node \<noteq> None
                  then dump_node_field fmtLg \<sigma> ''els'' (els node) (depth + 1) else [])
           | ND_FOR \<Rightarrow>
               (if init node \<noteq> None
                then dump_node_field fmtLg \<sigma> ''init'' (init node) (depth + 1) else [])
               @ (if cond node \<noteq> None
                  then dump_node_field fmtLg \<sigma> ''cond'' (cond node) (depth + 1) else [])
               @ (if inc node \<noteq> None
                  then dump_node_field fmtLg \<sigma> ''inc'' (inc node) (depth + 1) else [])
               @ dump_node_field fmtLg \<sigma> ''then'' (then_nd node) (depth + 1)
           | ND_DO \<Rightarrow>
               dump_node_field fmtLg \<sigma> ''body'' (then_nd node) (depth + 1)
               @ dump_node_field fmtLg \<sigma> ''cond'' (cond node) (depth + 1)
           | ND_SWITCH \<Rightarrow>
               dump_node_field fmtLg \<sigma> ''cond'' (cond node) (depth + 1)
               @ dump_node_field fmtLg \<sigma> ''then'' (then_nd node) (depth + 1)
           | ND_CASE \<Rightarrow>
               '',"begin":'' @ show_int (begin_val node) @ '',"end":'' @ show_int (end_val node)
               @ dump_node_field fmtLg \<sigma> ''body'' (lhs node) (depth + 1)
           | ND_BLOCK \<Rightarrow> dump_node_list fmtLg \<sigma> ''body'' (body node) (depth + 1)
           | ND_STMT_EXPR \<Rightarrow> dump_node_list fmtLg \<sigma> ''body'' (body node) (depth + 1)
           | ND_RETURN \<Rightarrow>
               (if lhs node \<noteq> None
                then dump_node_field fmtLg \<sigma> ''lhs'' (lhs node) (depth + 1) else [])
           | ND_EXPR_STMT \<Rightarrow>
               (if lhs node \<noteq> None
                then dump_node_field fmtLg \<sigma> ''lhs'' (lhs node) (depth + 1) else [])
           | ND_NEG \<Rightarrow>
               (if lhs node \<noteq> None
                then dump_node_field fmtLg \<sigma> ''lhs'' (lhs node) (depth + 1) else [])
           | ND_ADDR \<Rightarrow>
               (if lhs node \<noteq> None
                then dump_node_field fmtLg \<sigma> ''lhs'' (lhs node) (depth + 1) else [])
           | ND_DEREF \<Rightarrow>
               (if lhs node \<noteq> None
                then dump_node_field fmtLg \<sigma> ''lhs'' (lhs node) (depth + 1) else [])
           | ND_NOT \<Rightarrow>
               (if lhs node \<noteq> None
                then dump_node_field fmtLg \<sigma> ''lhs'' (lhs node) (depth + 1) else [])
           | ND_BITNOT \<Rightarrow>
               (if lhs node \<noteq> None
                then dump_node_field fmtLg \<sigma> ''lhs'' (lhs node) (depth + 1) else [])
           | ND_CAST \<Rightarrow>
               (if lhs node \<noteq> None
                then dump_node_field fmtLg \<sigma> ''lhs'' (lhs node) (depth + 1) else [])
           | ND_GOTO \<Rightarrow>
               (case label node of None \<Rightarrow> []
                | Some l \<Rightarrow> '',"label":'' @ json_print_str (Some l))
           | ND_GOTO_EXPR \<Rightarrow> dump_node_field fmtLg \<sigma> ''expr'' (lhs node) (depth + 1)
           | ND_LABEL \<Rightarrow>
               (case label node of None \<Rightarrow> []
                | Some l \<Rightarrow> '',"label":'' @ json_print_str (Some l))
               @ dump_node_field fmtLg \<sigma> ''body'' (lhs node) (depth + 1)
           | ND_LABEL_VAL \<Rightarrow>
               (case label node of None \<Rightarrow> []
                | Some l \<Rightarrow> '',"label":'' @ json_print_str (Some l))
           | ND_ASM \<Rightarrow>
               (case asm_str node of None \<Rightarrow> []
                | Some a \<Rightarrow> '',"asm":'' @ json_print_str (Some a))
           | ND_CAS \<Rightarrow>
               dump_node_field fmtLg \<sigma> ''addr'' (cas_addr node) (depth + 1)
               @ dump_node_field fmtLg \<sigma> ''old'' (cas_old node) (depth + 1)
               @ dump_node_field fmtLg \<sigma> ''new'' (cas_new node) (depth + 1)
           | ND_EXCH \<Rightarrow>
               dump_node_field fmtLg \<sigma> ''lhs'' (lhs node) (depth + 1)
               @ dump_node_field fmtLg \<sigma> ''rhs'' (rhs node) (depth + 1)
           | ND_COND \<Rightarrow>
               dump_node_field fmtLg \<sigma> ''cond'' (cond node) (depth + 1)
               @ dump_node_field fmtLg \<sigma> ''then'' (then_nd node) (depth + 1)
               @ dump_node_field fmtLg \<sigma> ''els'' (els node) (depth + 1)
           | ND_MEMZERO \<Rightarrow>
               (case var node of None \<Rightarrow> []
                | Some v \<Rightarrow> '',"name":'' @ json_print_str (obj_name (\<sigma> v)))
           | ND_VLA_PTR \<Rightarrow>
               (case var node of None \<Rightarrow> []
                | Some v \<Rightarrow> '',"name":'' @ json_print_str (obj_name (\<sigma> v)))
           | _ \<Rightarrow>
               (if lhs node \<noteq> None
                then dump_node_field fmtLg \<sigma> ''lhs'' (lhs node) (depth + 1) else [])
               @ (if rhs node \<noteq> None
                  then dump_node_field fmtLg \<sigma> ''rhs'' (rhs node) (depth + 1) else []))
        @ ''}'')\<close>
| \<open>dump_node_list_loop fmtLg \<sigma> first [] depth = []\<close>
| \<open>dump_node_list_loop fmtLg \<sigma> first (n # ns) depth =
     (if \<not> first then '','' else []) @ dump_node fmtLg \<sigma> (Some n) depth
     @ dump_node_list_loop fmtLg \<sigma> False ns depth\<close>
| \<open>dump_node_list fmtLg \<sigma> key node depth =
     '',"'' @ key @ ''":['' @ dump_node_list_loop fmtLg \<sigma> True node depth @ '']''\<close>
| \<open>dump_node_field fmtLg \<sigma> key node depth =
     '',"'' @ key @ ''":''
     @ (if node \<noteq> None then dump_node fmtLg \<sigma> node depth else ''null'')\<close>
  by pat_completeness auto

lemma size_Some_lhs: "lhs n = Some y \<Longrightarrow> Suc (size y) \<le> size n"
  and size_Some_rhs: "rhs n = Some y \<Longrightarrow> Suc (size y) \<le> size n"
  and size_Some_cond: "cond n = Some y \<Longrightarrow> Suc (size y) \<le> size n"
  and size_Some_then_nd: "then_nd n = Some y \<Longrightarrow> Suc (size y) \<le> size n"
  and size_Some_els: "els n = Some y \<Longrightarrow> Suc (size y) \<le> size n"
  and size_Some_init: "init n = Some y \<Longrightarrow> Suc (size y) \<le> size n"
  and size_Some_inc: "inc n = Some y \<Longrightarrow> Suc (size y) \<le> size n"
  and size_Some_cas_addr: "cas_addr n = Some y \<Longrightarrow> Suc (size y) \<le> size n"
  and size_Some_cas_old: "cas_old n = Some y \<Longrightarrow> Suc (size y) \<le> size n"
  and size_Some_cas_new: "cas_new n = Some y \<Longrightarrow> Suc (size y) \<le> size n"
  by (cases n; simp)+

lemma size_list_body2: "Suc (2 * size_list size (body n)) \<le> 2 * size n"
  and size_list_args2: "Suc (2 * size_list size (args n)) \<le> 2 * size n"
  using size_list_body [of n] size_list_args [of n] by arith+

lemmas size_option_child =
  size_option_lhs size_option_rhs size_option_cond size_option_then_nd size_option_els
  size_option_init size_option_inc size_option_cas_addr size_option_cas_old size_option_cas_new

lemmas size_option_child_le = size_option_child [THEN less_imp_le]

lemmas size_Some_child =
  size_Some_lhs size_Some_rhs size_Some_cond size_Some_then_nd size_Some_els size_Some_init
  size_Some_inc size_Some_cas_addr size_Some_cas_old size_Some_cas_new

termination dump_node
  by (relation "measure (\<lambda>x. case x of
         Inl (Inl (_, _, n, _)) \<Rightarrow> 2 * size_option size n
       | Inl (Inr (_, _, _, ns, _)) \<Rightarrow> 2 * size_list size ns + 1
       | Inr (Inl (_, _, _, ns, _)) \<Rightarrow> 2 * size_list size ns + 2
       | Inr (Inr (_, _, _, n, _)) \<Rightarrow> 2 * size_option size n + 1)")
     (auto simp: size_list_body size_list_args less_Suc_eq_le size_Some_child
        size_option_child size_option_child_le
        size_list_body2 size_list_args2)

text \<open>\<^verbatim>\<open>static void dump_type_json(FILE *out, Type *ty)\<close>\<close>

definition dump_type_json :: "Type option \<Rightarrow> string" where
  "dump_type_json typ = json_print_str (Some (type_to_str typ))"

text \<open>
  The two inner loops of \<^verbatim>\<open>dump_ast\<close>, over \<^verbatim>\<open>obj->params\<close> and over
  \<^verbatim>\<open>obj->locals\<close>, have the same body; \<open>first\<close> is \<^verbatim>\<open>pfirst\<close> or \<^verbatim>\<open>lfirst\<close>.
\<close>

fun dump_var_loop :: "'f store \<Rightarrow> bool \<Rightarrow> addr list \<Rightarrow> string" where
  \<open>dump_var_loop \<sigma> first [] = []\<close>
| \<open>dump_var_loop \<sigma> first (p # ps) =
     (if \<not> first then '','' else [])
     @ ''{'' @ ''"name":'' @ json_print_str (obj_name (\<sigma> p))
     @ '',"type":'' @ dump_type_json (obj_ty (\<sigma> p))
     @ '',"offset":'' @ show_int (offset (\<sigma> p))
     @ ''}''
     @ dump_var_loop \<sigma> False ps\<close>

text \<open>The body of the outer loop of \<^verbatim>\<open>dump_ast\<close>, after the separator.\<close>

definition dump_obj :: "('f \<Rightarrow> string) \<Rightarrow> 'f store \<Rightarrow> 'f Obj \<Rightarrow> string" where
  \<open>dump_obj fmtLg \<sigma> obj =
     ''  {'' @ ''"name":'' @ json_print_str (obj_name obj)
     @ '',"is_function":'' @ (if is_function obj then ''true'' else ''false'')
     @ '',"is_definition":'' @ (if is_definition obj then ''true'' else ''false'')
     @ '',"is_static":'' @ (if is_static obj then ''true'' else ''false'')
     @ (if obj_ty obj \<noteq> None then '',"type":'' @ dump_type_json (obj_ty obj) else [])
     @ (if is_function obj then
          (case obj_ty obj of
             None \<Rightarrow> []
           | Some typ \<Rightarrow>
               (if ty_return_ty typ \<noteq> None
                then '',"return_type":'' @ dump_type_json (ty_return_ty typ) else []))
          @ '',"params":['' @ dump_var_loop \<sigma> True (params obj) @ '']''
          @ (if obj_body obj \<noteq> None
             then '',"body":'' @ dump_node fmtLg \<sigma> (obj_body obj) 0 else [])
          @ '',"locals":['' @ dump_var_loop \<sigma> True (locals obj) @ '']''
        else
          (if is_tentative obj then '',"is_tentative":true'' else [])
          @ (if is_tls obj then '',"is_tls":true'' else [])
          @ (if init_data obj \<noteq> None then '',"has_init_data":true'' else []))
     @ ''}''\<close>

fun dump_ast_loop :: "('f \<Rightarrow> string) \<Rightarrow> 'f store \<Rightarrow> bool \<Rightarrow> addr list \<Rightarrow> string" where
  \<open>dump_ast_loop fmtLg \<sigma> first [] = []\<close>
| \<open>dump_ast_loop fmtLg \<sigma> first (obj # objs) =
     (if \<not> first then '',\<newline>'' else []) @ dump_obj fmtLg \<sigma> (\<sigma> obj)
     @ dump_ast_loop fmtLg \<sigma> False objs\<close>

text \<open>\<^verbatim>\<open>void dump_ast(Obj *prog)\<close>\<close>

definition dump_ast :: "('f \<Rightarrow> string) \<Rightarrow> 'f store \<Rightarrow> addr list \<Rightarrow> string" where
  \<open>dump_ast fmtLg \<sigma> prog =
     ''{"globals":[\<newline>'' @ dump_ast_loop fmtLg \<sigma> True prog @ ''\<newline>]}\<newline>''\<close>

section \<open>The WebAssembly code generator (codegen\_wasm.c)\<close>

text \<open>
  \<^verbatim>\<open>error_tok\<close> ends the process: a run that reaches it has the result \<open>Error_tok\<close> with
  the token, the message and the arguments of the message.  A read through a null pointer
  (or past the end of an initializer) has the result \<open>Invalid_access\<close>.  The generator
  functions take the store \<open>\<sigma>\<close> (they only read it) and the static variables \<open>s\<close>, and
  return the static variables after the call.
\<close>

datatype 'f error =
  Error_tok "'f Token option" string "NodeKind list"
| Invalid_access

text \<open>Sequencing of steps that can fail.\<close>

definition bnd :: "'e + 'a \<Rightarrow> ('a \<Rightarrow> 'e + 'b) \<Rightarrow> 'e + 'b" where
  "bnd m f = (case m of Inl e \<Rightarrow> Inl e | Inr x \<Rightarrow> f x)"

lemma bnd_cong [fundef_cong]:
  "m = m' \<Longrightarrow> (\<And>x. m' = Inr x \<Longrightarrow> f x = f' x) \<Longrightarrow> bnd m f = bnd m' f'"
  by (cases m') (simp_all add: bnd_def)

lemma bnd_simps [simp]: "bnd (Inl e) f = Inl e" "bnd (Inr x) f = f x"
  by (simp_all add: bnd_def)

text \<open>A sequence of steps that cannot fail, applied from left to right.\<close>

definition steps :: "('s \<Rightarrow> 's) list \<Rightarrow> 's \<Rightarrow> 's" where
  "steps fs s = fold (\<lambda>f. f) fs s"

text \<open>The cast \<^verbatim>\<open>(int)node->val\<close> of a 64-bit value.\<close>

definition to_int32 :: "int \<Rightarrow> int" where
  "to_int32 v = (v + 2147483648) mod 4294967296 - 2147483648"

text \<open>
  \<^verbatim>\<open>gen_addr\<close>, \<^verbatim>\<open>gen_expr\<close> and \<^verbatim>\<open>gen_stmt\<close>.  \<open>gen_args\<close> is the argument loop of
  \<^verbatim>\<open>ND_FUNCALL\<close>, \<open>gen_stmt_expr_body\<close> the loop of \<^verbatim>\<open>ND_STMT_EXPR\<close> and
  \<open>gen_block_body\<close> the loop of \<^verbatim>\<open>ND_BLOCK\<close>.
\<close>

function gen_addr :: "'f store \<Rightarrow> 'f Node option \<Rightarrow> 'f cg \<Rightarrow> 'f error + 'f cg"
  and gen_expr :: "'f store \<Rightarrow> 'f Node option \<Rightarrow> 'f cg \<Rightarrow> 'f error + 'f cg"
  and gen_args :: "'f store \<Rightarrow> 'f Node list \<Rightarrow> 'f cg \<Rightarrow> 'f error + 'f cg"
  and gen_stmt_expr_body :: "'f store \<Rightarrow> 'f Node list \<Rightarrow> 'f cg \<Rightarrow> 'f error + 'f cg"
  and gen_stmt :: "'f store \<Rightarrow> 'f Node option \<Rightarrow> 'f cg \<Rightarrow> 'f error + 'f cg"
  and gen_block_body :: "'f store \<Rightarrow> 'f Node list \<Rightarrow> 'f cg \<Rightarrow> 'f error + 'f cg"
where
  "gen_addr \<sigma> None s = Inl Invalid_access"
| "gen_addr \<sigma> (Some node) s =
     (if kind node = ND_VAR then
        (case var node of
           None \<Rightarrow> Inl Invalid_access
         | Some v \<Rightarrow>
             Inr (if is_local (\<sigma> v)
                  then println ''(i32.add (local.get $__bp) (i32.const %d))'' [I (offset (\<sigma> v))] s
                  else println ''(i32.const %d) ;; &%s'' [I (offset (\<sigma> v)), S (obj_name (\<sigma> v))] s))
      else if kind node = ND_DEREF then gen_expr \<sigma> (lhs node) s
      else if kind node = ND_COMMA then
        bnd (gen_expr \<sigma> (lhs node) s) (\<lambda>s.
        gen_addr \<sigma> (rhs node) (println ''(drop)'' [] s))
      else if kind node = ND_MEMBER then
        bnd (gen_addr \<sigma> (lhs node) s) (\<lambda>s.
        case member_nd node of
          None \<Rightarrow> Inl Invalid_access
        | Some m \<Rightarrow>
            Inr (steps [println ''(i32.const %d)'' [I (mem_offset m)], println ''(i32.add)'' []] s))
      else Inl (Error_tok (tok node) ''not an lvalue (wasm gen_addr)'' []))"
| "gen_expr \<sigma> None s = Inr s"
| "gen_expr \<sigma> (Some node) s =
     (if kind node = ND_NULL_EXPR then Inr (println ''(i32.const 0)'' [] s)
      else if kind node = ND_NUM then
        Inr (if is_wasm_f32 (ty node) then println ''(f32.const %f)'' [F32 (fval node)] s
             else if is_wasm_f64 (ty node) then println ''(f64.const %f)'' [F64 (fval node)] s
             else if is_wasm_i64 (ty node) then println ''(i64.const %lld)'' [I (val node)] s
             else println ''(i32.const %d)'' [I (to_int32 (val node))] s)
      else if kind node = ND_VAR then
        bnd (gen_addr \<sigma> (Some node) s) (\<lambda>s. Inr (wasm_load (ty node) s))
      else if kind node = ND_MEMBER then
        bnd (gen_addr \<sigma> (Some node) s) (\<lambda>s. Inr (wasm_load (ty node) s))
      else if kind node = ND_ADDR then gen_addr \<sigma> (lhs node) s
      else if kind node = ND_DEREF then
        bnd (gen_expr \<sigma> (lhs node) s) (\<lambda>s. Inr (wasm_load (ty node) s))
      else if kind node = ND_NEG then
        (if is_wasm_f32 (ty node) then
           bnd (gen_expr \<sigma> (lhs node) s) (\<lambda>s. Inr (println ''(f32.neg)'' [] s))
         else if is_wasm_f64 (ty node) then
           bnd (gen_expr \<sigma> (lhs node) s) (\<lambda>s. Inr (println ''(f64.neg)'' [] s))
         else
           bnd (gen_expr \<sigma> (lhs node) (println ''(i32.const 0)'' [] s)) (\<lambda>s.
           Inr (println ''(i32.sub)'' [] s)))
      else if kind node = ND_NOT then
        bnd (gen_expr \<sigma> (lhs node) s) (\<lambda>s. Inr (println ''(i32.eqz)'' [] s))
      else if kind node = ND_BITNOT then
        bnd (gen_expr \<sigma> (lhs node) s) (\<lambda>s.
        Inr (steps [println ''(i32.const -1)'' [], println ''(i32.xor)'' []] s))
      else if kind node = ND_ASSIGN then
        bnd (gen_addr \<sigma> (lhs node) s) (\<lambda>s.
        bnd (gen_expr \<sigma> (rhs node) s) (\<lambda>s.
        Inr (if is_wasm_float (ty node) then
               (let wt = wasm_type (ty node) in
                steps [println ''(local.set $__tmp_%s)'' [S (Some wt)],
                       println ''(local.get $__tmp_%s)'' [S (Some wt)],
                       wasm_store (ty node),
                       println ''(local.get $__tmp_%s)'' [S (Some wt)]] s)
             else
               steps [println ''(local.set $__tmp_i32)'' [],
                      println ''(local.get $__tmp_i32)'' [],
                      wasm_store (ty node),
                      println ''(local.get $__tmp_i32)'' []] s)))
      else if kind node = ND_COMMA then
        bnd (gen_expr \<sigma> (lhs node) s) (\<lambda>s.
        gen_expr \<sigma> (rhs node) (println ''(drop)'' [] s))
      else if kind node = ND_CAST then
        bnd (gen_expr \<sigma> (lhs node) s) (\<lambda>s.
        case lhs node of
          None \<Rightarrow> Inl Invalid_access
        | Some l \<Rightarrow>
            (case (ty l, ty node) of
               (Some from, Some to) \<Rightarrow>
                 Inr (if \<not> is_wasm_float (ty l) \<and> \<not> is_wasm_float (ty node)
                         \<and> \<not> is_wasm_i64 (ty l) \<and> \<not> is_wasm_i64 (ty node) then
                        (if ty_kind to = TY_BOOL then
                           steps [println ''(i32.const 0)'' [], println ''(i32.ne)'' []] s
                         else if ty_size to = 1 then
                           println (if ty_is_unsigned to then ''(i32.const 255) (i32.and)''
                                    else ''(i32.extend8_s)'') [] s
                         else if ty_size to = 2 then
                           println (if ty_is_unsigned to then ''(i32.const 65535) (i32.and)''
                                    else ''(i32.extend16_s)'') [] s
                         else s)
                      else if is_wasm_f32 (ty l) \<and> is_wasm_f64 (ty node) then
                        println ''(f64.promote_f32)'' [] s
                      else if is_wasm_f64 (ty l) \<and> is_wasm_f32 (ty node) then
                        println ''(f32.demote_f64)'' [] s
                      else if is_wasm_float (ty l) \<and> \<not> is_wasm_float (ty node) then
                        (if is_wasm_f32 (ty l) then
                           println (if ty_is_unsigned to then ''(i32.trunc_f32_u)''
                                    else ''(i32.trunc_f32_s)'') [] s
                         else
                           println (if ty_is_unsigned to then ''(i32.trunc_f64_u)''
                                    else ''(i32.trunc_f64_s)'') [] s)
                      else if \<not> is_wasm_float (ty l) \<and> is_wasm_float (ty node) then
                        (if is_wasm_f32 (ty node) then
                           println (if ty_is_unsigned from then ''(f32.convert_i32_u)''
                                    else ''(f32.convert_i32_s)'') [] s
                         else
                           println (if ty_is_unsigned from then ''(f64.convert_i32_u)''
                                    else ''(f64.convert_i32_s)'') [] s)
                      else s)
             | _ \<Rightarrow> Inr s))
      else if kind node = ND_COND then
        (let wt = wasm_type (ty node) in
         bnd (gen_expr \<sigma> (cond node) s) (\<lambda>s.
         bnd (gen_expr \<sigma> (then_nd node)
                (steps [println ''(if (result %s)'' [S (Some wt)], indent,
                        println ''(then'' [], indent] s)) (\<lambda>s.
         bnd (if els node \<noteq> None then
                gen_expr \<sigma> (els node)
                  (steps [dedent, println '')'' [], println ''(else'' [], indent] s)
              else
                Inr (steps [dedent, println '')'' [], println ''(else'' [], indent,
                            println ''(%s.const 0)'' [S (Some wt)]] s)) (\<lambda>s.
         Inr (steps [dedent, println '')'' [], dedent, println '')'' []] s)))))
      else if kind node = ND_LOGAND then
        bnd (gen_expr \<sigma> (lhs node) s) (\<lambda>s.
        bnd (gen_expr \<sigma> (rhs node)
               (steps [println ''(if (result i32)'' [], indent, println ''(then'' [], indent] s))
          (\<lambda>s.
        Inr (steps [println ''(i32.const 0)'' [], println ''(i32.ne)'' [], dedent,
                    println '')'' [], println ''(else (i32.const 0))'' [], dedent,
                    println '')'' []] s)))
      else if kind node = ND_LOGOR then
        bnd (gen_expr \<sigma> (lhs node) s) (\<lambda>s.
        bnd (gen_expr \<sigma> (rhs node)
               (steps [println ''(if (result i32)'' [], indent,
                       println ''(then (i32.const 1))'' [], println ''(else'' [], indent] s))
          (\<lambda>s.
        Inr (steps [println ''(i32.const 0)'' [], println ''(i32.ne)'' [], dedent,
                    println '')'' [], dedent, println '')'' []] s)))
      else if kind node = ND_FUNCALL then
        bnd (gen_args \<sigma> (args node) s) (\<lambda>s.
        case lhs node of
          None \<Rightarrow> Inl Invalid_access
        | Some f \<Rightarrow>
            if kind f = ND_VAR then
              (case var f of
                 None \<Rightarrow> Inl Invalid_access
               | Some v \<Rightarrow> Inr (println ''(call $%s)'' [S (obj_name (\<sigma> v))] s))
            else
              Inr (steps [println '';; TODO: indirect call'' [], println ''(drop)'' [],
                          println ''(i32.const 0)'' []] s))
      else if kind node = ND_STMT_EXPR then gen_stmt_expr_body \<sigma> (body node) s
      else if kind node = ND_MEMZERO then
        (case var node of
           None \<Rightarrow> Inl Invalid_access
         | Some v \<Rightarrow>
             (case obj_ty (\<sigma> v) of
                None \<Rightarrow> Inl Invalid_access
              | Some vt \<Rightarrow>
                  (let size = ty_size vt in
                   Inr (steps [println '';; memzero %s (%d bytes)'' [S (obj_name (\<sigma> v)), I size],
                               println ''(i32.add (local.get $__bp) (i32.const %d))''
                                 [I (offset (\<sigma> v))],
                               println ''(i32.const 0)'' [],
                               println ''(i32.const %d)'' [I size],
                               println ''(memory.fill)'' []] s))))
      else
        (case (lhs node, rhs node) of
           (Some l, Some r) \<Rightarrow>
             bnd (gen_expr \<sigma> (lhs node) s) (\<lambda>s.
             bnd (gen_expr \<sigma> (rhs node) s) (\<lambda>s.
             (let is_unsigned_int = (case ty l of None \<Rightarrow> False | Some lt \<Rightarrow> ty_is_unsigned lt);
                  is_float = is_wasm_float (ty node);
                  t = (if is_float then wasm_type (ty node) else ''i32'')
              in
              if kind node = ND_ADD then Inr (println ''(%s.add)'' [S (Some t)] s)
              else if kind node = ND_SUB then Inr (println ''(%s.sub)'' [S (Some t)] s)
              else if kind node = ND_MUL then Inr (println ''(%s.mul)'' [S (Some t)] s)
              else if kind node = ND_DIV then
                Inr (if is_float then println ''(%s.div)'' [S (Some t)] s
                     else println (if is_unsigned_int then ''(%s.div_u)'' else ''(%s.div_s)'')
                            [S (Some t)] s)
              else if kind node = ND_MOD then
                Inr (println (if is_unsigned_int then ''(%s.rem_u)'' else ''(%s.rem_s)'')
                       [S (Some t)] s)
              else if kind node = ND_BITAND then Inr (println ''(%s.and)'' [S (Some t)] s)
              else if kind node = ND_BITOR then Inr (println ''(%s.or)'' [S (Some t)] s)
              else if kind node = ND_BITXOR then Inr (println ''(%s.xor)'' [S (Some t)] s)
              else if kind node = ND_SHL then Inr (println ''(%s.shl)'' [S (Some t)] s)
              else if kind node = ND_SHR then
                Inr (println (if is_unsigned_int then ''(%s.shr_u)'' else ''(%s.shr_s)'')
                       [S (Some t)] s)
              else if kind node = ND_EQ then Inr (println ''(%s.eq)'' [S (Some t)] s)
              else if kind node = ND_NE then Inr (println ''(%s.ne)'' [S (Some t)] s)
              else if kind node = ND_LT then
                Inr (if is_float then println ''(%s.lt)'' [S (Some t)] s
                     else println (if is_unsigned_int then ''(%s.lt_u)'' else ''(%s.lt_s)'')
                            [S (Some t)] s)
              else if kind node = ND_LE then
                Inr (if is_float then println ''(%s.le)'' [S (Some t)] s
                     else println (if is_unsigned_int then ''(%s.le_u)'' else ''(%s.le_s)'')
                            [S (Some t)] s)
              else
                Inl (Error_tok (tok node)
                       ''unsupported expression in wasm codegen (kind=%d)'' [kind node]))))
         | _ \<Rightarrow>
             Inl (Error_tok (tok node)
                    ''unsupported expression in wasm codegen (kind=%d)'' [kind node])))"
| "gen_args \<sigma> [] s = Inr s"
| "gen_args \<sigma> (a # as) s = bnd (gen_expr \<sigma> (Some a) s) (\<lambda>s. gen_args \<sigma> as s)"
| "gen_stmt_expr_body \<sigma> [] s = Inr s"
| "gen_stmt_expr_body \<sigma> (n # ns) s =
     (if ns = [] then
        (if kind n = ND_EXPR_STMT then gen_expr \<sigma> (lhs n) s
         else bnd (gen_stmt \<sigma> (Some n) s) (\<lambda>s. Inr (println ''(i32.const 0)'' [] s)))
      else bnd (gen_stmt \<sigma> (Some n) s) (\<lambda>s. gen_stmt_expr_body \<sigma> ns s))"
| "gen_stmt \<sigma> None s = Inr s"
| "gen_stmt \<sigma> (Some node) s =
     (if kind node = ND_RETURN then
        bnd (if lhs node \<noteq> None then gen_expr \<sigma> (lhs node) s else Inr s) (\<lambda>s.
        Inr (println ''(br $__return)'' [] s))
      else if kind node = ND_EXPR_STMT then
        bnd (gen_expr \<sigma> (lhs node) s) (\<lambda>s.
        Inr (if (case lhs node of
                   None \<Rightarrow> False
                 | Some l \<Rightarrow> (case ty l of None \<Rightarrow> False | Some lt \<Rightarrow> ty_kind lt \<noteq> TY_VOID))
             then println ''(drop)'' [] s else s))
      else if kind node = ND_BLOCK then gen_block_body \<sigma> (body node) s
      else if kind node = ND_IF then
        bnd (gen_expr \<sigma> (cond node) s) (\<lambda>s.
        bnd (gen_stmt \<sigma> (then_nd node)
               (steps [println ''(if'' [], indent, println ''(then'' [], indent] s)) (\<lambda>s.
        bnd (if els node \<noteq> None then
               bnd (gen_stmt \<sigma> (els node)
                      (steps [dedent, println '')'' [], println ''(else'' [], indent] s)) (\<lambda>s.
               Inr (steps [dedent, println '')'' []] s))
             else Inr (steps [dedent, println '')'' []] s)) (\<lambda>s.
        Inr (steps [dedent, println '')'' []] s))))
      else if kind node = ND_FOR then
        bnd (if init node \<noteq> None then gen_stmt \<sigma> (init node) s else Inr s) (\<lambda>s.
        let s = steps [println ''(block $%s ;; break target'' [S (brk_label node)], indent,
                       println ''(loop $%s ;; continue target'' [S (cont_label node)],
                       indent] s
        in
        bnd (if cond node \<noteq> None then
               bnd (gen_expr \<sigma> (cond node) s) (\<lambda>s.
               Inr (steps [println ''(i32.eqz)'' [],
                           println ''(br_if $%s)'' [S (brk_label node)]] s))
             else Inr s) (\<lambda>s.
        bnd (gen_stmt \<sigma> (then_nd node) s) (\<lambda>s.
        bnd (if inc node \<noteq> None then
               bnd (gen_expr \<sigma> (inc node) s) (\<lambda>s. Inr (println ''(drop)'' [] s))
             else Inr s) (\<lambda>s.
        Inr (steps [println ''(br $%s)'' [S (cont_label node)], dedent,
                    println '') ;; end loop'' [], dedent, println '') ;; end block'' []] s)))))
      else if kind node = ND_DO then
        bnd (gen_stmt \<sigma> (then_nd node)
               (steps [println ''(block $%s ;; break target'' [S (brk_label node)], indent,
                       println ''(loop $%s ;; continue target'' [S (cont_label node)],
                       indent] s)) (\<lambda>s.
        bnd (gen_expr \<sigma> (cond node) s) (\<lambda>s.
        Inr (steps [println ''(br_if $%s)'' [S (cont_label node)], dedent,
                    println '') ;; end loop'' [], dedent, println '') ;; end block'' []] s)))
      else if kind node = ND_SWITCH then
        bnd (gen_expr \<sigma> (cond node) s) (\<lambda>s.
        bnd (gen_stmt \<sigma> (then_nd node)
               (steps ([println ''(local.set $__tmp_i32)'' [],
                        println ''(block $%s ;; break target'' [S (brk_label node)], indent]
                       @ concat (map (\<lambda>n. [println ''(local.get $__tmp_i32)'' [],
                                             println ''(i32.const %ld)'' [I (begin_val n)],
                                             println ''(i32.eq)'' [],
                                             println ''(if (then'' [], indent])
                                   (case_next node))) s)) (\<lambda>s.
        Inr (steps (concat (map (\<lambda>n. [dedent, println ''))'' []]) (case_next node))
                    @ [dedent, println '') ;; end break block'' []]) s)))
      else if kind node = ND_CASE then gen_stmt \<sigma> (lhs node) s
      else if kind node = ND_GOTO then
        Inr (println '';; TODO: goto %s'' [S (unique_label node)] s)
      else if kind node = ND_LABEL then
        gen_stmt \<sigma> (lhs node) (println '';; label: %s'' [S (label node)] s)
      else
        Inl (Error_tok (tok node) ''unsupported statement in wasm codegen (kind=%d)''
               [kind node]))"
| "gen_block_body \<sigma> [] s = Inr s"
| "gen_block_body \<sigma> (n # ns) s = bnd (gen_stmt \<sigma> (Some n) s) (\<lambda>s. gen_block_body \<sigma> ns s)"
  by pat_completeness auto

lemma double_le_SucSuc: "a < b \<Longrightarrow> 2 * a \<le> Suc (Suc (2 * b))"
  and double_le_Suc: "a < b \<Longrightarrow> 2 * a \<le> Suc (2 * b)"
  and Suc_double_le: "Suc a \<le> b \<Longrightarrow> Suc (2 * a) \<le> 2 * (b::nat)"
  by arith+

lemmas size_child_arith =
  size_option_child [THEN double_le_SucSuc] size_option_child [THEN double_le_Suc]
  size_Some_child [THEN Suc_double_le]
  size_list_body [THEN less_imp_le] size_list_args [THEN less_imp_le]

termination gen_addr
  apply (relation "measure (\<lambda>x. case x of
         Inl (Inl (_, n, _)) \<Rightarrow> 2 * size_option size n
       | Inl (Inr (Inl (_, n, _))) \<Rightarrow> 2 * size_option size n + 1
       | Inl (Inr (Inr (_, ns, _))) \<Rightarrow> 2 * size_list size ns + 2
       | Inr (Inl (_, ns, _)) \<Rightarrow> 2 * size_list size ns + 2
       | Inr (Inr (Inl (_, n, _))) \<Rightarrow> 2 * size_option size n + 1
       | Inr (Inr (Inr (_, ns, _))) \<Rightarrow> 2 * size_list size ns + 2)")
  apply (auto simp: size_list_body2 size_list_args2 less_Suc_eq_le size_Some_child
        size_option_child size_option_child_le size_child_arith)
  done

subsection \<open>Memory layout\<close>

text \<open>
  \<^verbatim>\<open>align_to\<close> is defined elsewhere in the compiler; the layout functions take it as the
  parameter \<open>al\<close>.  The store is passed in and returned, since the passes write
  \<^verbatim>\<open>offset\<close> and \<^verbatim>\<open>stack_size\<close> of the objects.
\<close>

text \<open>The inner loop of \<^verbatim>\<open>assign_wasm_offsets\<close> over \<^verbatim>\<open>fn->locals\<close>.\<close>

fun assign_locals_loop ::
  "(int \<Rightarrow> int \<Rightarrow> int) \<Rightarrow> addr list \<Rightarrow> int \<Rightarrow> 'f store \<Rightarrow> 'f error + (int \<times> 'f store)"
where
  "assign_locals_loop al [] off \<sigma> = Inr (off, \<sigma>)"
| "assign_locals_loop al (v # vs) off \<sigma> =
     (case obj_ty (\<sigma> v) of
        None \<Rightarrow> Inl Invalid_access
      | Some t \<Rightarrow>
          (let off = al off (if ty_align t > 0 then ty_align t else 1);
               \<sigma> = \<sigma>(v := (\<sigma> v)\<lparr>offset := off\<rparr>);
               off = off + ty_size t
           in assign_locals_loop al vs off \<sigma>))"

text \<open>\<^verbatim>\<open>static void assign_wasm_offsets(Obj *prog)\<close>\<close>

fun assign_wasm_offsets ::
  "(int \<Rightarrow> int \<Rightarrow> int) \<Rightarrow> addr list \<Rightarrow> 'f store \<Rightarrow> 'f error + 'f store"
where
  "assign_wasm_offsets al [] \<sigma> = Inr \<sigma>"
| "assign_wasm_offsets al (fn # fns) \<sigma> =
     (if \<not> is_function (\<sigma> fn) then assign_wasm_offsets al fns \<sigma>
      else
        bnd (assign_locals_loop al (locals (\<sigma> fn)) 0 \<sigma>) (\<lambda>(off, \<sigma>).
        assign_wasm_offsets al fns (\<sigma>(fn := (\<sigma> fn)\<lparr>stack_size := al off 16\<rparr>))))"

text \<open>The loop of \<^verbatim>\<open>assign_global_offsets\<close>.\<close>

fun assign_global_loop ::
  "(int \<Rightarrow> int \<Rightarrow> int) \<Rightarrow> addr list \<Rightarrow> int \<Rightarrow> 'f store \<Rightarrow> 'f error + (int \<times> 'f store)"
where
  "assign_global_loop al [] off \<sigma> = Inr (off, \<sigma>)"
| "assign_global_loop al (v # vs) off \<sigma> =
     (if is_function (\<sigma> v) then assign_global_loop al vs off \<sigma>
      else
        (case obj_ty (\<sigma> v) of
           None \<Rightarrow> Inl Invalid_access
         | Some t \<Rightarrow>
             (let off = al off (if ty_align t > 0 then ty_align t else 1);
                  \<sigma> = \<sigma>(v := (\<sigma> v)\<lparr>offset := off\<rparr>);
                  off = off + ty_size t
              in assign_global_loop al vs off \<sigma>)))"

text \<open>\<^verbatim>\<open>static int assign_global_offsets(Obj *prog)\<close>\<close>

definition assign_global_offsets ::
  "(int \<Rightarrow> int \<Rightarrow> int) \<Rightarrow> addr list \<Rightarrow> 'f store \<Rightarrow> 'f error + (int \<times> 'f store)"
where
  "assign_global_offsets al prog \<sigma> =
     bnd (assign_global_loop al prog 0 \<sigma>) (\<lambda>(off, \<sigma>). Inr (al off 16, \<sigma>))"

subsection \<open>Data segments, functions, module\<close>

text \<open>One iteration of the byte loop of \<^verbatim>\<open>emit_data\<close>.\<close>

definition emit_data_byte :: "char \<Rightarrow> 'f cg \<Rightarrow> 'f cg" where
  "emit_data_byte c =
     (if (of_char c :: nat) \<ge> 32 \<and> (of_char c :: nat) < 127 \<and> c \<noteq> CHR 0x22 \<and> c \<noteq> CHR 0x5C
      then fprintf ''%c'' [C c]
      else fprintf (CHR 0x5C # ''%02x'') [I (of_char c)])"

text \<open>
  \<^verbatim>\<open>static void emit_data(Obj *prog)\<close>.  The byte loop reads \<^verbatim>\<open>init_data[i]\<close> for
  \<^verbatim>\<open>i < var->ty->size\<close>; an initializer shorter than that is an invalid read.
\<close>

fun emit_data :: "'f store \<Rightarrow> addr list \<Rightarrow> 'f cg \<Rightarrow> 'f error + 'f cg" where
  "emit_data \<sigma> [] s = Inr s"
| "emit_data \<sigma> (v # vs) s =
     (if is_function (\<sigma> v) then emit_data \<sigma> vs s
      else
        (case init_data (\<sigma> v) of
           None \<Rightarrow> emit_data \<sigma> vs s
         | Some data \<Rightarrow>
             (case obj_ty (\<sigma> v) of
                None \<Rightarrow> Inl Invalid_access
              | Some t \<Rightarrow>
                  if int (length data) < ty_size t then Inl Invalid_access
                  else
                    emit_data \<sigma> vs
                      (steps
                         ([println '';; global: %s (offset=%d, size=%d)''
                             [S (obj_name (\<sigma> v)), I (offset (\<sigma> v)), I (ty_size t)],
                           fprintf (''  (data (i32.const %d) '' @ [CHR 0x22]) [I (offset (\<sigma> v))]]
                          @ map emit_data_byte (take (nat (ty_size t)) data)
                          @ [fprintf ([CHR 0x22] @ '')\<newline>'') []]) s))))"

text \<open>The two loops of \<^verbatim>\<open>emit_functions\<close> over \<^verbatim>\<open>fn->params\<close>.\<close>

definition emit_param_decl :: "'f store \<Rightarrow> addr \<Rightarrow> 'f cg \<Rightarrow> 'f cg" where
  "emit_param_decl \<sigma> param =
     fprintf '' (param $p_%s %s)''
       [S (obj_name (\<sigma> param)), S (Some (wasm_type (obj_ty (\<sigma> param))))]"

definition emit_param_spill :: "'f store \<Rightarrow> addr \<Rightarrow> 'f cg \<Rightarrow> 'f cg" where
  "emit_param_spill \<sigma> param =
     steps [println '';; store param %s at bp+%d''
              [S (obj_name (\<sigma> param)), I (offset (\<sigma> param))],
            println ''(i32.add (local.get $__bp) (i32.const %d))'' [I (offset (\<sigma> param))],
            println ''(local.get $p_%s)'' [S (obj_name (\<sigma> param))],
            wasm_store (obj_ty (\<sigma> param))]"

text \<open>\<^verbatim>\<open>static void emit_functions(Obj *prog)\<close>\<close>

fun emit_functions :: "'f store \<Rightarrow> addr list \<Rightarrow> 'f cg \<Rightarrow> 'f error + 'f cg" where
  "emit_functions \<sigma> [] s = Inr s"
| "emit_functions \<sigma> (fn # fns) s =
     (if \<not> is_function (\<sigma> fn) \<or> \<not> is_definition (\<sigma> fn) then emit_functions \<sigma> fns s
      else if \<not> is_live (\<sigma> fn) then emit_functions \<sigma> fns s
      else
        (let s = s\<lparr>current_fn := Some fn, wasm_label_count := 0\<rparr>;
             s = fprintf ''  (func $%s'' [S (obj_name (\<sigma> fn))] s
         in
         case obj_name (\<sigma> fn) of
           None \<Rightarrow> Inl Invalid_access
         | Some name \<Rightarrow>
             (let s = (if name = ''main''
                       then fprintf ('' (export '' @ [CHR 0x22] @ ''_start'' @ [CHR 0x22] @ '')'') [] s
                       else s);
                  s = steps (map (emit_param_decl \<sigma>) (params (\<sigma> fn))) s
              in
              case obj_ty (\<sigma> fn) of
                None \<Rightarrow> Inl Invalid_access
              | Some fty \<Rightarrow>
                  (let ret = ty_return_ty fty;
                       has_return =
                         (case ret of None \<Rightarrow> False | Some r \<Rightarrow> ty_kind r \<noteq> TY_VOID);
                       s = (if has_return then fprintf '' (result %s)'' [S (Some (wasm_type ret))] s
                            else s);
                       s = fprintf ''\<newline>'' [] s;
                       s = s\<lparr>indent_level := 2\<rparr>;
                       s = steps
                             [println ''(local $__bp i32)  ;; base pointer'' [],
                              println ''(local $__tmp_i32 i32)'' [],
                              println ''(local $__tmp_f32 f32)'' [],
                              println ''(local $__tmp_f64 f64)'' [],
                              println '';; prologue: allocate %d bytes'' [I (stack_size (\<sigma> fn))],
                              println
                                ''(global.set $__sp (i32.sub (global.get $__sp) (i32.const %d)))''
                                [I (stack_size (\<sigma> fn))],
                              println ''(local.set $__bp (global.get $__sp))'' []] s;
                       s = steps (map (emit_param_spill \<sigma>) (params (\<sigma> fn))) s;
                       s = (if has_return
                            then println ''(block $__return (result %s)'' [S (Some (wasm_type ret))] s
                            else println ''(block $__return'' [] s);
                       s = indent s
                   in
                   bnd (gen_stmt \<sigma> (obj_body (\<sigma> fn)) s) (\<lambda>s.
                   let s = (if has_return then
                              (if name = ''main'' then println ''(i32.const 0)'' [] s
                               else println ''(%s.const 0) ;; implicit return''
                                      [S (Some (wasm_type ret))] s)
                            else s);
                       s = steps
                             [dedent,
                              println '') ;; end block $__return'' [],
                              println '';; epilogue'' [],
                              println
                                ''(global.set $__sp (i32.add (local.get $__bp) (i32.const %d)))''
                                [I (stack_size (\<sigma> fn))]] s;
                       s = s\<lparr>indent_level := 1\<rparr>;
                       s = steps [println '') ;; end func $%s'' [S (obj_name (\<sigma> fn))],
                                  fprintf ''\<newline>'' []] s
                   in emit_functions \<sigma> fns s)))))"

text \<open>
  \<^verbatim>\<open>void codegen_wasm(Obj *prog, FILE *out)\<close>.  \<open>out\<close> is what the stream holds on entry;
  \<open>s\<close> carries the values the static variables have on entry.
\<close>

definition codegen_wasm ::
  "(int \<Rightarrow> int \<Rightarrow> int) \<Rightarrow> addr list \<Rightarrow> 'f item list \<Rightarrow> 'f store \<Rightarrow> 'f cg
     \<Rightarrow> 'f error + ('f store \<times> 'f cg)"
where
  "codegen_wasm al prog out \<sigma> s =
     (let s = s\<lparr>output_file := out\<rparr>;
          s = s\<lparr>indent_level := 0\<rparr>
      in
      bnd (assign_global_offsets al prog \<sigma>) (\<lambda>(data_size, \<sigma>).
      bnd (assign_wasm_offsets al prog \<sigma>) (\<lambda>\<sigma>.
      let stack_start = al (data_size + 1024) 65536;
          stack_start = (if stack_start < 65536 then 65536 else stack_start);
          s = steps
                [println ''(module'' [],
                 indent,
                 println (''(memory (export '' @ [CHR 0x22] @ ''memory'' @ [CHR 0x22] @ '') 2)'') [],
                 fprintf ''\<newline>'' [],
                 println '';; Stack pointer (grows downward from %d)'' [I stack_start],
                 println ''(global $__sp (mut i32) (i32.const %d))'' [I stack_start],
                 fprintf ''\<newline>'' []] s
      in
      bnd (emit_data \<sigma> prog s) (\<lambda>s.
      bnd (emit_functions \<sigma> prog (fprintf ''\<newline>'' [] s)) (\<lambda>s.
      Inr (\<sigma>, steps [dedent, println '')'' []] s))))))"

subsection \<open>The bytes of the stream\<close>

text \<open>
  One conversion of printf: \<open>spec\<close> is the directive from \<^verbatim>\<open>%\<close> to its conversion
  letter.  \<open>fmtf\<close> is \<^verbatim>\<open>%f\<close> on an argument converted to \<^verbatim>\<open>float\<close> or to
  \<^verbatim>\<open>double\<close>.  A null string prints as glibc prints it.
\<close>

definition conv :: "('f arg \<Rightarrow> string) \<Rightarrow> string \<Rightarrow> 'f arg \<Rightarrow> string" where
  "conv fmtf spec a =
     (case a of
        S None \<Rightarrow> ''(null)''
      | S (Some str) \<Rightarrow> str
      | I n \<Rightarrow> (if spec = ''02x'' then show_hex_pad 2 (nat n) else show_int n)
      | C c \<Rightarrow> [c]
      | F32 x \<Rightarrow> fmtf (F32 x)
      | F64 x \<Rightarrow> fmtf (F64 x))"

text \<open>
  \<open>format fmtf fmt as pending\<close>: the text printf writes for the rest \<open>fmt\<close> of a format
  string with the arguments \<open>as\<close> left; \<open>pending\<close> holds the characters of a directive
  being read.
\<close>

fun format :: "('f arg \<Rightarrow> string) \<Rightarrow> string \<Rightarrow> 'f arg list \<Rightarrow> string option \<Rightarrow> string" where
  "format fmtf [] as pending = []"
| "format fmtf (c # cs) as None =
     (if c = CHR ''%'' then format fmtf cs as (Some [])
      else c # format fmtf cs as None)"
| "format fmtf (c # cs) as (Some spec) =
     (if c \<in> set ''dsfcx'' then
        (case as of
           [] \<Rightarrow> format fmtf cs [] None
         | a # as' \<Rightarrow> conv fmtf (spec @ [c]) a @ format fmtf cs as' None)
      else format fmtf cs as (Some (spec @ [c])))"

definition render_item :: "('f arg \<Rightarrow> string) \<Rightarrow> 'f item \<Rightarrow> string" where
  "render_item fmtf it =
     (case it of
        Println i fmt as \<Rightarrow>
          concat (replicate (nat i) ''  '') @ format fmtf fmt as None @ ''\<newline>''
      | Fprintf fmt as \<Rightarrow> format fmtf fmt as None)"

definition render :: "('f arg \<Rightarrow> string) \<Rightarrow> 'f item list \<Rightarrow> string" where
  "render fmtf items = concat (map (render_item fmtf) items)"

section \<open>Concrete inputs and auxiliary notions for the statements\<close>

text \<open>A node of kind \<open>k\<close> with type \<open>t\<close> and value \<open>v\<close>, every pointer null.\<close>

definition leaf :: "NodeKind \<Rightarrow> Type option \<Rightarrow> int \<Rightarrow> 'f \<Rightarrow> 'f Node" where
  "leaf k t v f =
     Node k t None None None None None None None None None None [] None [] None None [] None
       0 0 None None None None None v f"

text \<open>A node of kind \<open>k\<close> whose only child is \<open>lhs\<close>.\<close>

definition unary :: "NodeKind \<Rightarrow> Type option \<Rightarrow> 'f Node \<Rightarrow> 'f Node" where
  "unary k t l =
     Node k t None (Some l) None None None None None None None None [] None [] None None [] None
       0 0 None None None None None 0 (fval l)"


definition no_obj :: "'f Obj" where
  "no_obj = \<lparr>obj_name = None, obj_ty = None, is_local = False, offset = 0, is_function = False,
     is_definition = False, is_static = False, is_tentative = False, is_tls = False,
     init_data = None, params = [], obj_body = None, locals = [], stack_size = 0,
     is_live = False\<rparr>"

definition tk :: "TokenKind \<Rightarrow> string \<Rightarrow> unit Token" where
  "tk k txt = \<lparr>tk_kind = k, tk_val = 0, tk_fval = (), tk_ty = None, loc = txt,
     filename = Some ''a.c'', line_no = 1\<rparr>"

definition cg0 :: "'f cg" where
  "cg0 = \<lparr>output_file = [], current_fn = None, indent_level = 0, wasm_label_count = 0\<rparr>"

definition ty_int :: Type where "ty_int = Type TY_INT 4 4 False None 0 None"
definition ty_void :: Type where "ty_void = Type TY_VOID 1 1 False None 0 None"
definition ty_fn :: "Type \<Rightarrow> Type" where "ty_fn r = Type TY_FUNC 1 1 False None 0 (Some r)"

text \<open>
  Modelled from the spec: \<^verbatim>\<open>align_to(n, align)\<close>, defined outside the two source files,
  rounds \<open>n\<close> up to a multiple of a positive power-of-two alignment.  It is used for the
  concrete runs only; the theorems hold for every alignment function.
\<close>

definition align_to :: "int \<Rightarrow> int \<Rightarrow> int" where
  "align_to n a = (n + a - 1) div a * a"

definition ret0 :: "unit Node" where
  "ret0 = unary ND_RETURN None (leaf ND_NUM (Some ty_int) 0 ())"

definition main_obj :: "unit Obj" where
  "main_obj = no_obj\<lparr>obj_name := Some ''main'', obj_ty := Some (ty_fn ty_int), is_function := True,
     is_definition := True, is_live := True, obj_body := Some (Node ND_BLOCK None None None None None None None None None None None [ret0] None [] None None [] None
       0 0 None None None None None 0 ())\<rparr>"

definition g_obj :: "unit Obj" where
  "g_obj = no_obj\<lparr>obj_name := Some ''g'', obj_ty := Some ty_int, init_data := Some [CHR ''a'', CHR 0x22, CHR 0x01, CHR 0x00]\<rparr>"




text \<open>The elements of a list written one after the other with \<open>sep\<close> between neighbours.\<close>

fun join_with :: "string \<Rightarrow> string list \<Rightarrow> string" where
  "join_with sep [] = []"
| "join_with sep [x] = x"
| "join_with sep (x # y # ys) = x @ sep @ join_with sep (y # ys)"

text \<open>
  The cast rules in the words of the specification: the instruction lines to be written
  after the operand of a cast from \<open>from\<close> to \<open>to\<close>, first the rule for two types that
  are neither floating point nor 64-bit, then promotion and demotion, then truncation
  (signedness of the target), then conversion (signedness of the source).
\<close>

definition cast_spec :: "Type \<Rightarrow> Type \<Rightarrow> string list" where
  "cast_spec from to =
     (let f32 = (\<lambda>t. ty_kind t = TY_FLOAT);
          f64 = (\<lambda>t. ty_kind t = TY_DOUBLE \<or> ty_kind t = TY_LDOUBLE);
          flt = (\<lambda>t. f32 t \<or> f64 t);
          i64 = (\<lambda>t. ty_kind t = TY_LONG \<and> ty_size t = 8);
          sign = (\<lambda>t. if ty_is_unsigned t then ''u'' else ''s'')
      in
      if \<not> flt from \<and> \<not> flt to \<and> \<not> i64 from \<and> \<not> i64 to then
        (if ty_kind to = TY_BOOL then [''(i32.const 0)'', ''(i32.ne)'']
         else if ty_size to = 1 \<and> ty_is_unsigned to then [''(i32.const 255) (i32.and)'']
         else if ty_size to = 1 then [''(i32.extend8_s)'']
         else if ty_size to = 2 \<and> ty_is_unsigned to then [''(i32.const 65535) (i32.and)'']
         else if ty_size to = 2 then [''(i32.extend16_s)'']
         else [])
      else if f32 from \<and> f64 to then [''(f64.promote_f32)'']
      else if f64 from \<and> f32 to then [''(f32.demote_f64)'']
      else if flt from \<and> \<not> flt to then
        [''(i32.trunc_'' @ (if f32 from then ''f32'' else ''f64'') @ ''_'' @ sign to @ '')'']
      else if \<not> flt from \<and> flt to then
        [''('' @ (if f32 to then ''f32'' else ''f64'') @ ''.convert_i32_'' @ sign from @ '')'']
      else [])"

definition ty_char :: Type where "ty_char = Type TY_CHAR 1 1 False None 0 None"
definition ty_float :: Type where "ty_float = Type TY_FLOAT 4 4 False None 0 None"

text \<open>A loop \<^verbatim>\<open>for (;; f()) {}\<close> whose increment calls the function \<open>f\<close> returning void.\<close>

definition f_obj :: "unit Obj" where
  "f_obj = no_obj\<lparr>obj_name := Some ''f'', obj_ty := Some (ty_fn ty_void), is_function := True\<rparr>"

definition call_f :: "unit Node" where
  "call_f =
     Node ND_FUNCALL (Some ty_void) None
       (Some (Node ND_VAR (Some (ty_fn ty_void)) None None None None None None None None None
                None [] None [] None None [] None 0 0 None None None None (Some 0) 0 ()))
       None None None None None None None None [] None [] None None [] None 0 0 None None None
       None None 0 ()"

definition for_void_inc :: "unit Node" where
  "for_void_inc =
     Node ND_FOR None None None None None (Some (leaf ND_BLOCK None 0 ())) None None
       (Some call_f) (Some ''L1'') (Some ''L2'') [] None [] None None [] None 0 0 None None None
       None None 0 ()"

text \<open>
  The writes of the layout passes: \<open>W_off a v\<close> is \<^verbatim>\<open>a->offset = v\<close>, \<open>W_stk a v\<close> is
  \<^verbatim>\<open>a->stack_size = v\<close>.  \<open>last_off ws a\<close> and \<open>last_stk ws a\<close> are the values the last
  such writes in \<open>ws\<close> leave at \<open>a\<close>.
\<close>

datatype wr = W_off addr int | W_stk addr int

fun apply_wr :: "'f store \<Rightarrow> wr \<Rightarrow> 'f store" where
  "apply_wr \<sigma> (W_off a v) = \<sigma>(a := (\<sigma> a)\<lparr>offset := v\<rparr>)"
| "apply_wr \<sigma> (W_stk a v) = \<sigma>(a := (\<sigma> a)\<lparr>stack_size := v\<rparr>)"

fun last_off :: "wr list \<Rightarrow> addr \<Rightarrow> int option" where
  "last_off [] a = None"
| "last_off (w # ws) a =
     (case last_off ws a of Some v \<Rightarrow> Some v
      | None \<Rightarrow> (case w of W_off b v \<Rightarrow> if a = b then Some v else None | _ \<Rightarrow> None))"

fun last_stk :: "wr list \<Rightarrow> addr \<Rightarrow> int option" where
  "last_stk [] a = None"
| "last_stk (w # ws) a =
     (case last_stk ws a of Some v \<Rightarrow> Some v
      | None \<Rightarrow> (case w of W_stk b v \<Rightarrow> if a = b then Some v else None | _ \<Rightarrow> None))"

text \<open>Two stores that differ at most in the fields the layout passes write.\<close>

definition same_static :: "'f store \<Rightarrow> 'f store \<Rightarrow> bool" where
  "same_static \<sigma> \<tau> = (\<forall>a. (\<sigma> a)\<lparr>offset := 0, stack_size := 0\<rparr> = (\<tau> a)\<lparr>offset := 0, stack_size := 0\<rparr>)"

text \<open>
  Two states of the static variables with the same stream and the same indentation, and
  the steps that keep two such states so.
\<close>

definition agree :: "'f cg \<Rightarrow> 'f cg \<Rightarrow> bool" where
  "agree s t = (output_file s = output_file t \<and> indent_level s = indent_level t)"

definition pres :: "('f cg \<Rightarrow> 'f cg) \<Rightarrow> bool" where
  "pres f = (\<forall>s t. agree s t \<longrightarrow> agree (f s) (f t))"

text \<open>A program with the function \<open>main\<close> at address 0 and the global \<open>g\<close> at address 1.\<close>

definition prog_store :: "unit store" where
  "prog_store = (\<lambda>a. if a = 0 then main_obj else g_obj)"

section \<open>Type utilities: classification and sizes\<close>

text \<open>
  C3.  For every type, \<open>wasm_type\<close> is \<open>f32\<close> for float, \<open>f64\<close> for double and long
  double, \<open>i64\<close> for a long of size 8 and \<open>i32\<close> for every other kind; \<open>wasm_size\<close> is 4
  for pointer and function kinds, 4 for long whatever its nominal size, and the type's own
  size for every other kind.
\<close>

theorem wasm_type_size_classification:
  "wasm_type (Some t) =
     (if ty_kind t = TY_FLOAT then ''f32''
      else if ty_kind t \<in> {TY_DOUBLE, TY_LDOUBLE} then ''f64''
      else if ty_kind t = TY_LONG \<and> ty_size t = 8 then ''i64''
      else ''i32'')
   \<and> wasm_size (Some t) =
     (if ty_kind t \<in> {TY_PTR, TY_FUNC} then 4
      else if ty_kind t = TY_LONG then 4
      else ty_size t)"
  by (cases "ty_kind t") (simp_all add: wasm_type_def wasm_size_def)

theorem wasm_type_size_classification_witness:
  "wasm_type (Some (Type TY_LONG 8 8 False None 0 None)) = ''i64''
   \<and> wasm_size (Some (Type TY_LONG 8 8 False None 0 None)) = 4
   \<and> wasm_type (Some (Type TY_LONG 4 4 False None 0 None)) = ''i32''
   \<and> wasm_type (Some (Type TY_LDOUBLE 16 16 False None 0 None)) = ''f64''
   \<and> wasm_size (Some (Type TY_LDOUBLE 16 16 False None 0 None)) = 16
   \<and> wasm_size (Some (Type TY_PTR 8 8 False None 0 None)) = 4"
  using wasm_type_size_classification [of "Type TY_LONG 8 8 False None 0 None"]
    wasm_type_size_classification [of "Type TY_LONG 4 4 False None 0 None"]
    wasm_type_size_classification [of "Type TY_LDOUBLE 16 16 False None 0 None"]
    wasm_type_size_classification [of "Type TY_PTR 8 8 False None 0 None"]
  by simp

text \<open>
  C9.  At the null type pointer \<open>wasm_type\<close> answers \<open>i32\<close>, \<open>wasm_size\<close> answers 4, and
  \<open>wasm_load\<close> and \<open>wasm_store\<close> return with the stream untouched.  None of the four has a
  failing branch: they are total functions into plain results (a string, an integer, the
  generator state), so for every argument, null included, they return normally.
\<close>

theorem type_utilities_null:
  "wasm_type None = ''i32'' \<and> wasm_size None = 4 \<and> wasm_load None s = s \<and> wasm_store None s = s"
  by (simp add: wasm_type_def wasm_size_def wasm_load_def wasm_store_def)

section \<open>The JSON dumper\<close>

subsection \<open>Tokens\<close>

lemma join_with_Cons: "join_with sep (x # xs) = x @ concat (map (\<lambda>y. sep @ y) xs)"
  by (induction xs arbitrary: x) simp_all

lemma dump_tokens_loop_rest:
  "dump_tokens_loop fmtLg False ts =
     concat (map (\<lambda>y. '',\<newline>'' @ y)
       (map (dump_token fmtLg) (takeWhile (\<lambda>t. tk_kind t \<noteq> TK_EOF) ts)))"
  by (induction ts) simp_all

lemma dump_tokens_loop_first:
  "dump_tokens_loop fmtLg True ts =
     join_with '',\<newline>'' (map (dump_token fmtLg) (takeWhile (\<lambda>t. tk_kind t \<noteq> TK_EOF) ts))"
proof (cases ts)
  case Nil
  then show ?thesis by simp
next
  case (Cons t ts')
  then show ?thesis
    by (simp add: dump_tokens_loop_rest join_with_Cons del: join_with.simps(2,3))
qed

text \<open>
  C10.  \<open>dump_tokens\<close> writes the array of exactly the tokens strictly before the first
  \<open>TK_EOF\<close> token, in list order, separated by a comma and a newline: the \<open>TK_EOF\<close> token
  and everything after it are left out, and a list whose head is \<open>TK_EOF\<close> gives the empty
  array.
\<close>

theorem dump_tokens_before_eof:
  "dump_tokens fmtLg tokens =
     ''[\<newline>''
     @ join_with '',\<newline>''
         (map (dump_token fmtLg) (takeWhile (\<lambda>t. tk_kind t \<noteq> TK_EOF) tokens))
     @ ''\<newline>]\<newline>''
   \<and> (\<forall>t ts. tk_kind t = TK_EOF \<longrightarrow> dump_tokens fmtLg (t # ts) = ''[\<newline>\<newline>]\<newline>'')"
  by (simp add: dump_tokens_def dump_tokens_loop_first)

theorem dump_tokens_before_eof_witness:
  \<open>dump_tokens (\<lambda>_. []) [tk TK_IDENT ''x'', tk TK_EOF [], tk TK_IDENT ''y'']
     = ''[\<newline>  {"kind":"TK_IDENT","text":"x","line":1,"file":"a.c"}\<newline>]\<newline>''
   \<and> tk_kind (tk TK_EOF []) = TK_EOF
   \<and> dump_tokens (\<lambda>_. []) [tk TK_EOF [], tk TK_IDENT ''y''] = ''[\<newline>\<newline>]\<newline>''\<close>
  using dump_tokens_before_eof [of "\<lambda>_. []" "[tk TK_IDENT ''x'', tk TK_EOF [], tk TK_IDENT ''y'']"]
    dump_tokens_before_eof [of "\<lambda>_. []" "[]"]
  by (simp add: tk_def dump_token_def token_kind_name_def json_print_str_def
      json_print_escaped_def json_escape_char_def show_int_def show_nat.simps)

subsection \<open>The empty program\<close>

text \<open>
  C7 as stated: dumping a program with no objects writes exactly the text
  \<^verbatim>\<open>{"globals":[]}\<close>.  The dumper puts a newline after the opening bracket, one before the
  closing bracket and one at the end, so the bytes differ.
\<close>

theorem dump_ast_empty_counterexample:
  \<open>dump_ast (\<lambda>u::unit. []) (\<lambda>a. no_obj) [] \<noteq> ''{"globals":[]}''\<close>
  by (simp add: dump_ast_def)

text \<open>
  C7, amended.  Dumping a program with no objects writes exactly
  \<^verbatim>\<open>{"globals":[\<close>, two newlines, \<^verbatim>\<open>]}\<close> and a newline: the JSON document
  \<^verbatim>\<open>{"globals":[]}\<close> up to whitespace.
\<close>

theorem dump_ast_empty:
  \<open>dump_ast fmtLg \<sigma> [] = ''{"globals":[\<newline>\<newline>]}\<newline>''\<close>
  by (simp add: dump_ast_def)

subsection \<open>The depth bound\<close>


















section \<open>Expression and statement generation\<close>

subsection \<open>Casts\<close>

text \<open>
  C5.  For every cast node whose operand and result both carry a type, the generator
  evaluates the operand and then writes exactly the lines of the cast rules, in the order
  of the specification: the narrowing rule when neither type is floating point nor
  64-bit (compare with zero for bool, mask or sign extension for sizes 1 and 2, nothing
  otherwise), promotion or demotion between f32 and f64, truncation with the signedness
  of the target, conversion with the signedness of the source.
\<close>

theorem gen_expr_cast:
  assumes "kind node = ND_CAST" and "lhs node = Some l"
    and "ty l = Some from" and "ty node = Some to"
    and "gen_expr \<sigma> (Some l) s = Inr s1"
  shows "gen_expr \<sigma> (Some node) s
           = Inr (steps (map (\<lambda>line. println line []) (cast_spec from to)) s1)"
  using assms 
  by (simp add: cast_spec_def steps_def is_wasm_float_def is_wasm_f32_def is_wasm_f64_def
      is_wasm_i64_def Let_def)

theorem gen_expr_cast_witness:
  "kind (unary ND_CAST (Some ty_char) (leaf ND_NUM (Some ty_int) 5 ())) = ND_CAST
   \<and> lhs (unary ND_CAST (Some ty_char) (leaf ND_NUM (Some ty_int) 5 ()))
       = Some (leaf ND_NUM (Some ty_int) 5 ())
   \<and> ty (leaf ND_NUM (Some ty_int) 5 ()) = Some ty_int
   \<and> ty (unary ND_CAST (Some ty_char) (leaf ND_NUM (Some ty_int) 5 ())) = Some ty_char
   \<and> gen_expr (\<lambda>a. no_obj) (Some (leaf ND_NUM (Some ty_int) 5 ())) cg0
       = Inr (cg0\<lparr>output_file := [Println 0 ''(i32.const %d)'' [I 5]]\<rparr>)
   \<and> gen_expr (\<lambda>a. no_obj) (Some (unary ND_CAST (Some ty_char) (leaf ND_NUM (Some ty_int) 5 ()))) cg0
       = Inr (cg0\<lparr>output_file := [Println 0 ''(i32.const %d)'' [I 5],
                                   Println 0 ''(i32.extend8_s)'' []]\<rparr>)"
proof -
  have k: "kind (unary ND_CAST (Some ty_char) (leaf ND_NUM (Some ty_int) 5 ())) = ND_CAST"
    and l: "lhs (unary ND_CAST (Some ty_char) (leaf ND_NUM (Some ty_int) 5 ()))
       = Some (leaf ND_NUM (Some ty_int) 5 ())"
    and f: "ty (leaf ND_NUM (Some ty_int) 5 ()) = Some ty_int"
    and t: "ty (unary ND_CAST (Some ty_char) (leaf ND_NUM (Some ty_int) 5 ())) = Some ty_char"
    by (simp_all add: unary_def leaf_def)
  have g: "gen_expr (\<lambda>a. no_obj) (Some (leaf ND_NUM (Some ty_int) 5 ())) cg0
       = Inr (cg0\<lparr>output_file := [Println 0 ''(i32.const %d)'' [I 5]]\<rparr>)"
    by (simp add: leaf_def ty_int_def is_wasm_f32_def is_wasm_f64_def is_wasm_i64_def
        println_def cg0_def to_int32_def)
  show ?thesis
    using gen_expr_cast [OF k l f t g] k l f t g
    by (simp add: cast_spec_def ty_char_def ty_int_def steps_def println_def cg0_def
        del: gen_expr.simps)
qed

subsection \<open>The increment of a for loop\<close>

text \<open>
  C2 at a loop whose increment has type void.  The claim has no \<^verbatim>\<open>(drop)\<close> after the
  increment when its type is void; the generator writes \<^verbatim>\<open>(drop)\<close> after every
  increment, here after the call of a function that returns nothing.  (The expression
  statement, which also discards a value, tests the type for void before it drops.)
\<close>

theorem gen_stmt_for_void_inc_drops:
  "ty call_f = Some ty_void \<and> ty_kind ty_void = TY_VOID \<and> inc for_void_inc = Some call_f
   \<and> gen_stmt (\<lambda>a. f_obj) (Some for_void_inc) cg0
     = Inr (cg0\<lparr>output_file :=
         [Println 0 ''(block $%s ;; break target'' [S (Some ''L1'')],
          Println 1 ''(loop $%s ;; continue target'' [S (Some ''L2'')],
          Println 2 ''(call $%s)'' [S (Some ''f'')],
          Println 2 ''(drop)'' [],
          Println 2 ''(br $%s)'' [S (Some ''L2'')],
          Println 1 '') ;; end loop'' [],
          Println 0 '') ;; end block'' []]\<rparr>)"
  by (simp add: for_void_inc_def call_f_def leaf_def f_obj_def no_obj_def ty_void_def ty_fn_def
      cg0_def steps_def println_def indent_def dedent_def)

section \<open>The module: layout and repeated runs\<close>

lemma steps_Cons: "steps (f # fs) s = steps fs (f s)" by (simp add: steps_def)
lemma steps_Nil: "steps [] s = s" by (simp add: steps_def)
lemma steps_append: "steps (fs @ gs) s = steps gs (steps fs s)" by (simp add: steps_def)

subsection \<open>The layout passes as a sequence of writes\<close>

lemma same_static_refl [simp]: "same_static \<sigma> \<sigma>" by (simp add: same_static_def)

lemma same_static_fields:
  assumes "same_static \<sigma> \<tau>"
  shows "obj_ty (\<sigma> a) = obj_ty (\<tau> a)" "is_function (\<sigma> a) = is_function (\<tau> a)"
    "locals (\<sigma> a) = locals (\<tau> a)"
proof -
  have e: "(\<sigma> a)\<lparr>offset := 0, stack_size := 0\<rparr> = (\<tau> a)\<lparr>offset := 0, stack_size := 0\<rparr>"
    using assms by (simp add: same_static_def)
  show "obj_ty (\<sigma> a) = obj_ty (\<tau> a)" using arg_cong [OF e, of obj_ty] by simp
  show "is_function (\<sigma> a) = is_function (\<tau> a)" using arg_cong [OF e, of is_function] by simp
  show "locals (\<sigma> a) = locals (\<tau> a)" using arg_cong [OF e, of locals] by simp
qed

lemma same_static_apply: "same_static \<sigma> \<tau> \<Longrightarrow> same_static (apply_wr \<sigma> w) (apply_wr \<tau> w)"
  by (cases w) (auto simp: same_static_def)

lemma same_static_apply1: "same_static \<sigma> (apply_wr \<sigma> w)"
  by (cases w) (auto simp: same_static_def)

lemma same_static_trans: "same_static a b \<Longrightarrow> same_static b c \<Longrightarrow> same_static a c"
  by (simp add: same_static_def)

lemma same_static_foldl: "same_static \<sigma> (foldl apply_wr \<sigma> ws)"
proof (induction ws arbitrary: \<sigma>)
  case Nil then show ?case by simp
next
  case (Cons w ws)
  show ?case using same_static_trans [OF same_static_apply1 Cons.IH] by simp
qed

lemma foldl_apply_wr:
  "foldl apply_wr \<sigma> ws a =
     (\<sigma> a)\<lparr>offset := (case last_off ws a of None \<Rightarrow> offset (\<sigma> a) | Some v \<Rightarrow> v),
            stack_size := (case last_stk ws a of None \<Rightarrow> stack_size (\<sigma> a) | Some v \<Rightarrow> v)\<rparr>"
proof (induction ws arbitrary: \<sigma>)
  case Nil
  then show ?case by simp
next
  case (Cons w ws)
  show ?case
    by (cases w) (auto simp: Cons.IH split: option.splits)
qed

lemma foldl_apply_wr_idem:
  "foldl apply_wr (foldl apply_wr \<sigma> ws) ws = foldl apply_wr \<sigma> ws"
  by (rule ext) (simp add: foldl_apply_wr split: option.splits)

lemma assign_locals_loop_writes:
  "assign_locals_loop al vs off \<sigma> = Inr (off', \<sigma>') \<Longrightarrow>
   \<exists>ws. \<sigma>' = foldl apply_wr \<sigma> ws
     \<and> (\<forall>\<tau>. same_static \<sigma> \<tau> \<longrightarrow>
            assign_locals_loop al vs off \<tau> = Inr (off', foldl apply_wr \<tau> ws))"
proof (induction vs arbitrary: off \<sigma>)
  case Nil
  then show ?case by (intro exI [of _ "[]"]) simp
next
  case (Cons v vs)
  from Cons.prems obtain t where t: "obj_ty (\<sigma> v) = Some t"
    by (cases "obj_ty (\<sigma> v)") simp_all
  define o1 where "o1 = al off (if ty_align t > 0 then ty_align t else 1)"
  have run: "assign_locals_loop al vs (o1 + ty_size t) (apply_wr \<sigma> (W_off v o1)) = Inr (off', \<sigma>')"
    using Cons.prems t by (simp add: o1_def Let_def)
  from Cons.IH [OF run] obtain ws where
    ws: "\<sigma>' = foldl apply_wr (apply_wr \<sigma> (W_off v o1)) ws"
    and all: "\<And>\<tau>. same_static (apply_wr \<sigma> (W_off v o1)) \<tau> \<Longrightarrow>
            assign_locals_loop al vs (o1 + ty_size t) \<tau> = Inr (off', foldl apply_wr \<tau> ws)"
    by blast
  show ?case
  proof (intro exI [of _ "W_off v o1 # ws"] conjI allI impI)
    show "\<sigma>' = foldl apply_wr \<sigma> (W_off v o1 # ws)" using ws by simp
  next
    fix \<tau> assume st: "same_static \<sigma> \<tau>"
    have tt: "obj_ty (\<tau> v) = Some t" using same_static_fields(1) [OF st, of v] t by simp
    have "assign_locals_loop al vs (o1 + ty_size t) (apply_wr \<tau> (W_off v o1))
            = Inr (off', foldl apply_wr (apply_wr \<tau> (W_off v o1)) ws)"
      using all [OF same_static_apply [OF st]] .
    then show "assign_locals_loop al (v # vs) off \<tau> = Inr (off', foldl apply_wr \<tau> (W_off v o1 # ws))"
      using tt by (simp add: o1_def Let_def)
  qed
qed

lemma assign_global_loop_writes:
  "assign_global_loop al vs off \<sigma> = Inr (off', \<sigma>') \<Longrightarrow>
   \<exists>ws. \<sigma>' = foldl apply_wr \<sigma> ws
     \<and> (\<forall>\<tau>. same_static \<sigma> \<tau> \<longrightarrow>
            assign_global_loop al vs off \<tau> = Inr (off', foldl apply_wr \<tau> ws))"
proof (induction vs arbitrary: off \<sigma>)
  case Nil
  then show ?case by (intro exI [of _ "[]"]) simp
next
  case (Cons v vs)
  show ?case
  proof (cases "is_function (\<sigma> v)")
    case True
    then have run: "assign_global_loop al vs off \<sigma> = Inr (off', \<sigma>')" using Cons.prems by simp
    from Cons.IH [OF run] obtain ws where
      ws: "\<sigma>' = foldl apply_wr \<sigma> ws"
      and all: "\<And>\<tau>. same_static \<sigma> \<tau> \<Longrightarrow>
            assign_global_loop al vs off \<tau> = Inr (off', foldl apply_wr \<tau> ws)"
      by blast
    show ?thesis
    proof (intro exI [of _ ws] conjI allI impI)
      show "\<sigma>' = foldl apply_wr \<sigma> ws" by (rule ws)
    next
      fix \<tau> assume st: "same_static \<sigma> \<tau>"
      have "is_function (\<tau> v)" using same_static_fields(2) [OF st, of v] True by simp
      then show "assign_global_loop al (v # vs) off \<tau> = Inr (off', foldl apply_wr \<tau> ws)"
        using all [OF st] by simp
    qed
  next
    case False
    from Cons.prems False obtain t where t: "obj_ty (\<sigma> v) = Some t"
      by (cases "obj_ty (\<sigma> v)") simp_all
    define o1 where "o1 = al off (if ty_align t > 0 then ty_align t else 1)"
    have run: "assign_global_loop al vs (o1 + ty_size t) (apply_wr \<sigma> (W_off v o1)) = Inr (off', \<sigma>')"
      using Cons.prems t False by (simp add: o1_def Let_def)
    from Cons.IH [OF run] obtain ws where
      ws: "\<sigma>' = foldl apply_wr (apply_wr \<sigma> (W_off v o1)) ws"
      and all: "\<And>\<tau>. same_static (apply_wr \<sigma> (W_off v o1)) \<tau> \<Longrightarrow>
            assign_global_loop al vs (o1 + ty_size t) \<tau> = Inr (off', foldl apply_wr \<tau> ws)"
      by blast
    show ?thesis
    proof (intro exI [of _ "W_off v o1 # ws"] conjI allI impI)
      show "\<sigma>' = foldl apply_wr \<sigma> (W_off v o1 # ws)" using ws by simp
    next
      fix \<tau> assume st: "same_static \<sigma> \<tau>"
      have tt: "obj_ty (\<tau> v) = Some t" using same_static_fields(1) [OF st, of v] t by simp
      have nf: "\<not> is_function (\<tau> v)" using same_static_fields(2) [OF st, of v] False by simp
      have "assign_global_loop al vs (o1 + ty_size t) (apply_wr \<tau> (W_off v o1))
            = Inr (off', foldl apply_wr (apply_wr \<tau> (W_off v o1)) ws)"
        using all [OF same_static_apply [OF st]] .
      then show "assign_global_loop al (v # vs) off \<tau> = Inr (off', foldl apply_wr \<tau> (W_off v o1 # ws))"
        using tt nf by (simp add: o1_def Let_def)
    qed
  qed
qed

lemma bnd_InrE:
  "bnd m f = Inr y \<Longrightarrow> (\<And>x. m = Inr x \<Longrightarrow> f x = Inr y \<Longrightarrow> P) \<Longrightarrow> P"
  by (cases m) simp_all

lemma assign_wasm_offsets_writes:
  "assign_wasm_offsets al fns \<sigma> = Inr \<sigma>' \<Longrightarrow>
   \<exists>ws. \<sigma>' = foldl apply_wr \<sigma> ws
     \<and> (\<forall>\<tau>. same_static \<sigma> \<tau> \<longrightarrow>
            assign_wasm_offsets al fns \<tau> = Inr (foldl apply_wr \<tau> ws))"
proof (induction fns arbitrary: \<sigma>)
  case Nil
  then show ?case by (intro exI [of _ "[]"]) simp
next
  case (Cons fn fns)
  show ?case
  proof (cases "is_function (\<sigma> fn)")
    case False
    then have run: "assign_wasm_offsets al fns \<sigma> = Inr \<sigma>'" using Cons.prems by simp
    from Cons.IH [OF run] obtain ws where
      ws: "\<sigma>' = foldl apply_wr \<sigma> ws"
      and all: "\<And>\<tau>. same_static \<sigma> \<tau> \<Longrightarrow>
            assign_wasm_offsets al fns \<tau> = Inr (foldl apply_wr \<tau> ws)"
      by blast
    show ?thesis
    proof (intro exI [of _ ws] conjI allI impI)
      show "\<sigma>' = foldl apply_wr \<sigma> ws" by (rule ws)
    next
      fix \<tau> assume st: "same_static \<sigma> \<tau>"
      have "\<not> is_function (\<tau> fn)" using same_static_fields(2) [OF st, of fn] False by simp
      then show "assign_wasm_offsets al (fn # fns) \<tau> = Inr (foldl apply_wr \<tau> ws)"
        using all [OF st] by simp
    qed
  next
    case True
    from Cons.prems True obtain off1 \<sigma>1 where
      l: "assign_locals_loop al (locals (\<sigma> fn)) 0 \<sigma> = Inr (off1, \<sigma>1)"
      and r: "assign_wasm_offsets al fns (apply_wr \<sigma>1 (W_stk fn (al off1 16))) = Inr \<sigma>'"
      by (auto elim!: bnd_InrE)
    from assign_locals_loop_writes [OF l] obtain ws1 where
      ws1: "\<sigma>1 = foldl apply_wr \<sigma> ws1"
      and all1: "\<And>\<tau>. same_static \<sigma> \<tau> \<Longrightarrow>
            assign_locals_loop al (locals (\<sigma> fn)) 0 \<tau> = Inr (off1, foldl apply_wr \<tau> ws1)"
      by blast
    from Cons.IH [OF r] obtain ws2 where
      ws2: "\<sigma>' = foldl apply_wr (apply_wr \<sigma>1 (W_stk fn (al off1 16))) ws2"
      and all2: "\<And>\<tau>. same_static (apply_wr \<sigma>1 (W_stk fn (al off1 16))) \<tau> \<Longrightarrow>
            assign_wasm_offsets al fns \<tau> = Inr (foldl apply_wr \<tau> ws2)"
      by blast
    let ?ws = "ws1 @ W_stk fn (al off1 16) # ws2"
    show ?thesis
    proof (intro exI [of _ ?ws] conjI allI impI)
      show "\<sigma>' = foldl apply_wr \<sigma> ?ws" using ws1 ws2 by simp
    next
      fix \<tau> assume st: "same_static \<sigma> \<tau>"
      have f: "is_function (\<tau> fn)" using same_static_fields(2) [OF st, of fn] True by simp
      have lo: "locals (\<tau> fn) = locals (\<sigma> fn)" using same_static_fields(3) [OF st, of fn] by simp
      have st1: "same_static \<sigma>1 (foldl apply_wr \<tau> ws1)"
      proof -
        have "same_static \<sigma>1 \<sigma>" 
          using same_static_foldl [of \<sigma> ws1] ws1 by (simp add: same_static_def)
        moreover have "same_static \<tau> (foldl apply_wr \<tau> ws1)" by (rule same_static_foldl)
        ultimately show ?thesis using st same_static_trans by blast
      qed
      have "assign_wasm_offsets al fns (apply_wr (foldl apply_wr \<tau> ws1) (W_stk fn (al off1 16)))
              = Inr (foldl apply_wr (apply_wr (foldl apply_wr \<tau> ws1) (W_stk fn (al off1 16))) ws2)"
        using all2 [OF same_static_apply [OF st1]] .
      then show "assign_wasm_offsets al (fn # fns) \<tau> = Inr (foldl apply_wr \<tau> ?ws)"
        using f lo all1 [OF st] by simp
    qed
  qed
qed

text \<open>
  The two passes, run again on the store they produced, make the same writes and leave
  the store as it is.
\<close>

lemma layout_twice:
  assumes g: "assign_global_offsets al prog \<sigma> = Inr (ds, \<sigma>a)"
    and w: "assign_wasm_offsets al prog \<sigma>a = Inr \<sigma>1"
  shows "\<exists>\<sigma>b. assign_global_offsets al prog \<sigma>1 = Inr (ds, \<sigma>b)
           \<and> assign_wasm_offsets al prog \<sigma>b = Inr \<sigma>1"
proof -
  from g obtain off where gl: "assign_global_loop al prog 0 \<sigma> = Inr (off, \<sigma>a)" and ds: "ds = al off 16"
    by (auto simp: assign_global_offsets_def elim!: bnd_InrE)
  from assign_global_loop_writes [OF gl] obtain ws1 where
    ws1: "\<sigma>a = foldl apply_wr \<sigma> ws1"
    and all1: "\<And>\<tau>. same_static \<sigma> \<tau> \<Longrightarrow>
          assign_global_loop al prog 0 \<tau> = Inr (off, foldl apply_wr \<tau> ws1)"
    by blast
  from assign_wasm_offsets_writes [OF w] obtain ws2 where
    ws2: "\<sigma>1 = foldl apply_wr \<sigma>a ws2"
    and all2: "\<And>\<tau>. same_static \<sigma>a \<tau> \<Longrightarrow>
          assign_wasm_offsets al prog \<tau> = Inr (foldl apply_wr \<tau> ws2)"
    by blast
  have s1: "\<sigma>1 = foldl apply_wr \<sigma> (ws1 @ ws2)" using ws1 ws2 by simp
  have st: "same_static \<sigma> \<sigma>1" unfolding s1 by (rule same_static_foldl)
  have sta: "same_static \<sigma>a (foldl apply_wr \<sigma>1 ws1)"
  proof -
    have "same_static \<sigma>a \<sigma>" using same_static_foldl [of \<sigma> ws1] ws1 by (simp add: same_static_def)
    moreover have "same_static \<sigma>1 (foldl apply_wr \<sigma>1 ws1)" by (rule same_static_foldl)
    ultimately show ?thesis using st same_static_trans by blast
  qed
  have "foldl apply_wr (foldl apply_wr \<sigma>1 ws1) ws2 = foldl apply_wr \<sigma>1 (ws1 @ ws2)" by simp
  also have "\<dots> = \<sigma>1" unfolding s1 by (rule foldl_apply_wr_idem)
  finally have idem: "foldl apply_wr (foldl apply_wr \<sigma>1 ws1) ws2 = \<sigma>1" .
  show ?thesis
  proof (intro exI [of _ "foldl apply_wr \<sigma>1 ws1"] conjI)
    show "assign_global_offsets al prog \<sigma>1 = Inr (ds, foldl apply_wr \<sigma>1 ws1)"
      using all1 [OF st] ds by (simp add: assign_global_offsets_def)
    show "assign_wasm_offsets al prog (foldl apply_wr \<sigma>1 ws1) = Inr \<sigma>1"
      using all2 [OF sta] idem by simp
  qed
qed

subsection \<open>Emission and the static variables\<close>

lemma agree_refl [simp]: "agree s s" by (simp add: agree_def)

lemma pres_println [simp]: "pres (println fmt as)"
  and pres_fprintf [simp]: "pres (fprintf fmt as)"
  and pres_indent [simp]: "pres indent"
  and pres_dedent [simp]: "pres dedent"
  by (simp_all add: pres_def agree_def println_def fprintf_def indent_def dedent_def)

lemma pres_steps: "(\<And>f. f \<in> set fs \<Longrightarrow> pres f) \<Longrightarrow> pres (steps fs)"
proof (induction fs)
  case Nil
  then show ?case by (simp add: pres_def steps_Nil)
next
  case (Cons f fs)
  have "pres f" "pres (steps fs)" using Cons by simp_all
  then show ?case by (simp add: pres_def steps_Cons)
qed

lemma pres_emit_data_byte [simp]: "pres (emit_data_byte c)"
  by (simp add: emit_data_byte_def)

lemma presD: "pres f \<Longrightarrow> agree s t \<Longrightarrow> agree (f s) (f t)"
  by (simp add: pres_def)

lemma emit_data_agree:
  "agree s t \<Longrightarrow> rel_sum (=) agree (emit_data \<sigma> vs s) (emit_data \<sigma> vs t)"
proof (induction vs arbitrary: s t)
  case Nil
  then show ?case by simp
next
  case (Cons v vs)
  show ?case
  proof (cases "is_function (\<sigma> v) \<or> init_data (\<sigma> v) = None")
    case True
    then show ?thesis using Cons.IH [OF Cons.prems] by auto
  next
    case False
    then obtain data where data: "init_data (\<sigma> v) = Some data" and nf: "\<not> is_function (\<sigma> v)"
      by auto
    show ?thesis
    proof (cases "obj_ty (\<sigma> v)")
      case None
      then show ?thesis using data nf by simp
    next
      case (Some ty0)
      let ?fs = "[println '';; global: %s (offset=%d, size=%d)''
                             [S (obj_name (\<sigma> v)), I (offset (\<sigma> v)), I (ty_size ty0)],
                           fprintf (''  (data (i32.const %d) '' @ [CHR 0x22]) [I (offset (\<sigma> v))]]
                          @ map emit_data_byte (take (nat (ty_size ty0)) data)
                          @ [fprintf ([CHR 0x22] @ '')\<newline>'') []]"
      have "pres (steps ?fs)" by (rule pres_steps) auto
      then have "agree (steps ?fs s) (steps ?fs t)" using Cons.prems by (rule presD)
      from Cons.IH [OF this] show ?thesis using data nf Some by simp
    qed
  qed
qed

lemma agree_reset:
  "agree s t \<Longrightarrow> s\<lparr>current_fn := c, wasm_label_count := k\<rparr> = t\<lparr>current_fn := c, wasm_label_count := k\<rparr>"
  by (cases s, cases t) (simp add: agree_def)

lemma emit_functions_reset:
  "\<not> (\<not> is_function (\<sigma> fn) \<or> \<not> is_definition (\<sigma> fn)) \<Longrightarrow> is_live (\<sigma> fn) \<Longrightarrow>
   emit_functions \<sigma> (fn # fns) s
     = emit_functions \<sigma> (fn # fns) (s\<lparr>current_fn := Some fn, wasm_label_count := 0\<rparr>)"
  by (simp add: Let_def del: gen_stmt.simps)

lemma rel_sum_agree_refl: "rel_sum (=) agree x x"
  by (cases x) simp_all

lemma emit_functions_agree:
  "agree s t \<Longrightarrow> rel_sum (=) agree (emit_functions \<sigma> fns s) (emit_functions \<sigma> fns t)"
proof (induction fns arbitrary: s t)
  case Nil
  then show ?case by simp
next
  case (Cons fn fns)
  show ?case
  proof (cases "(\<not> is_function (\<sigma> fn) \<or> \<not> is_definition (\<sigma> fn)) \<or> \<not> is_live (\<sigma> fn)")
    case True
    then show ?thesis using Cons.IH [OF Cons.prems] by auto
  next
    case False
    then have a: "\<not> (\<not> is_function (\<sigma> fn) \<or> \<not> is_definition (\<sigma> fn))" and b: "is_live (\<sigma> fn)"
      by auto
    have "emit_functions \<sigma> (fn # fns) s = emit_functions \<sigma> (fn # fns) t"
      using emit_functions_reset [where \<sigma> = \<sigma> and fn = fn and fns = fns and s = s, OF a b]
        emit_functions_reset [where \<sigma> = \<sigma> and fn = fn and fns = fns and s = t, OF a b]
        agree_reset [OF Cons.prems, where c = "Some fn" and k = 0]
      by (simp del: emit_functions.simps)
    then show ?thesis by (simp add: rel_sum_agree_refl del: emit_functions.simps)
  qed
qed

lemma rel_sum_InrD: "rel_sum (=) R x y \<Longrightarrow> x = Inr a \<Longrightarrow> \<exists>b. y = Inr b \<and> R a b"
  by (cases y) auto

text \<open>
  C8.  A second run of \<open>codegen_wasm\<close> on the same program, started on the program graph
  as the first run left it (the store with the offsets and frame sizes the first run
  wrote) and with the static variables as the first run left them, on a stream with the
  same content, succeeds, assigns the same offsets and frame sizes again (the store does
  not change) and makes the same writes: the output of the two runs is the same call for
  call, hence byte for byte.
\<close>

theorem codegen_wasm_deterministic:
  assumes "codegen_wasm al prog out \<sigma> s = Inr (\<sigma>1, s1)"
  shows "\<exists>s2. codegen_wasm al prog out \<sigma>1 s1 = Inr (\<sigma>1, s2)
           \<and> output_file s2 = output_file s1
           \<and> render fmtf (output_file s2) = render fmtf (output_file s1)"
proof -
  let ?hdr = "\<lambda>ds. (let stack_start = al (ds + 1024) 65536;
          stack_start = (if stack_start < 65536 then 65536 else stack_start) in
     [println ''(module'' [],
                 indent,
                 println (''(memory (export '' @ [CHR 0x22] @ ''memory'' @ [CHR 0x22] @ '') 2)'') [],
                 fprintf ''\<newline>'' [],
                 println '';; Stack pointer (grows downward from %d)'' [I stack_start],
                 println ''(global $__sp (mut i32) (i32.const %d))'' [I stack_start],
                 fprintf ''\<newline>'' []])"
  let ?s0 = "s\<lparr>output_file := out, indent_level := 0\<rparr>"
  let ?t0 = "s1\<lparr>output_file := out, indent_level := 0\<rparr>"
  from assms obtain ds \<sigma>a sd sf where
    g: "assign_global_offsets al prog \<sigma> = Inr (ds, \<sigma>a)"
    and w: "assign_wasm_offsets al prog \<sigma>a = Inr \<sigma>1"
    and d: "emit_data \<sigma>1 prog (steps (?hdr ds) ?s0) = Inr sd"
    and f: "emit_functions \<sigma>1 prog (fprintf ''\<newline>'' [] sd) = Inr sf"
    and s1: "s1 = steps [dedent, println '')'' []] sf"
    by (auto simp: codegen_wasm_def Let_def elim!: bnd_InrE)
  from layout_twice [OF g w] obtain \<sigma>b where
    g2: "assign_global_offsets al prog \<sigma>1 = Inr (ds, \<sigma>b)"
    and w2: "assign_wasm_offsets al prog \<sigma>b = Inr \<sigma>1"
    by blast
  have a0: "agree ?s0 ?t0" by (simp add: agree_def)
  have "pres (steps (?hdr ds))" by (rule pres_steps) (auto simp: Let_def)
  then have "agree (steps (?hdr ds) ?s0) (steps (?hdr ds) ?t0)" using a0 by (rule presD)
  from rel_sum_InrD [OF emit_data_agree [OF this] d] obtain td where
    d2: "emit_data \<sigma>1 prog (steps (?hdr ds) ?t0) = Inr td" and ad: "agree sd td"
    by blast
  have "agree (fprintf ''\<newline>'' [] sd) (fprintf ''\<newline>'' [] td)"
    using ad presD [OF pres_fprintf] by blast
  from rel_sum_InrD [OF emit_functions_agree [OF this] f] obtain tf where
    f2: "emit_functions \<sigma>1 prog (fprintf ''\<newline>'' [] td) = Inr tf" and af: "agree sf tf"
    by blast
  have "pres (steps [dedent, println '')'' []])" by (rule pres_steps) auto
  then have a2: "agree (steps [dedent, println '')'' []] sf) (steps [dedent, println '')'' []] tf)"
    using af by (rule presD)
  have run2: "codegen_wasm al prog out \<sigma>1 s1 = Inr (\<sigma>1, steps [dedent, println '')'' []] tf)"
    using g2 w2 d2 f2 by (simp add: codegen_wasm_def Let_def)
  show ?thesis
    using run2 a2 s1 by (simp add: agree_def)
qed

lemma codegen_wasm_example_runs:
  "\<exists>r. codegen_wasm align_to [0, 1] [] prog_store cg0 = Inr r"
  by (simp add: codegen_wasm_def assign_global_offsets_def prog_store_def main_obj_def g_obj_def
      no_obj_def ty_fn_def ty_int_def align_to_def Let_def steps_def ret0_def unary_def leaf_def
      emit_data_byte_def is_wasm_f32_def is_wasm_f64_def is_wasm_i64_def)

theorem codegen_wasm_deterministic_witness:
  "\<exists>\<sigma>1 s1. codegen_wasm align_to [0, 1] [] prog_store cg0 = Inr (\<sigma>1, s1)
     \<and> (\<exists>s2. codegen_wasm align_to [0, 1] [] \<sigma>1 s1 = Inr (\<sigma>1, s2)
           \<and> output_file s2 = output_file s1
           \<and> render (\<lambda>a. ''0.000000'') (output_file s2)
               = render (\<lambda>a. ''0.000000'') (output_file s1))"
proof -
  from codegen_wasm_example_runs obtain \<sigma>1 s1 where
    h: "codegen_wasm align_to [0, 1] [] prog_store cg0 = Inr (\<sigma>1, s1)"
    by (metis surj_pair)
  from codegen_wasm_deterministic [OF h, of "\<lambda>a. ''0.000000''"] h show ?thesis by blast
qed

end
